theory Spec2Isabelle
  imports Complex_Main
begin

section \<open>Numbers, time and the library calls of the currency code\<close>

text \<open>
  A Go \<open>float64\<close> is a finite number, one of the two infinities, or NaN. The finite numbers
  are the reals and the operations on them are exact: rounding and overflow are not
  represented, and zero has no sign. Where an operand is not finite, or a divisor is zero,
  the operations follow IEEE 754: a non-zero number over zero is the infinity of its sign,
  zero over zero and infinity times zero are NaN, opposite infinities add to NaN, a finite
  number over an infinity is zero, and NaN spreads.
\<close>

datatype float64 = Fin real | PInf | NInf | NaN

text \<open>The infinity with the sign of \<open>s\<close>; NaN where \<open>s\<close> is zero.\<close>

definition inf_of :: "real \<Rightarrow> float64" where
  "inf_of s = (if s = 0 then NaN else if 0 < s then PInf else NInf)"

definition fadd :: "float64 \<Rightarrow> float64 \<Rightarrow> float64" where
  "fadd x y =
     (case (x, y) of
        (Fin a, Fin b) \<Rightarrow> Fin (a + b)
      | (NaN, _) \<Rightarrow> NaN
      | (_, NaN) \<Rightarrow> NaN
      | (PInf, NInf) \<Rightarrow> NaN
      | (NInf, PInf) \<Rightarrow> NaN
      | (PInf, _) \<Rightarrow> PInf
      | (_, PInf) \<Rightarrow> PInf
      | (NInf, _) \<Rightarrow> NInf
      | (_, NInf) \<Rightarrow> NInf)"

definition fmul :: "float64 \<Rightarrow> float64 \<Rightarrow> float64" where
  "fmul x y =
     (case (x, y) of
        (Fin a, Fin b) \<Rightarrow> Fin (a * b)
      | (NaN, _) \<Rightarrow> NaN
      | (_, NaN) \<Rightarrow> NaN
      | (Fin a, PInf) \<Rightarrow> inf_of a
      | (Fin a, NInf) \<Rightarrow> inf_of (- a)
      | (PInf, Fin b) \<Rightarrow> inf_of b
      | (NInf, Fin b) \<Rightarrow> inf_of (- b)
      | (PInf, PInf) \<Rightarrow> PInf
      | (NInf, NInf) \<Rightarrow> PInf
      | (PInf, NInf) \<Rightarrow> NInf
      | (NInf, PInf) \<Rightarrow> NInf)"

definition fdiv :: "float64 \<Rightarrow> float64 \<Rightarrow> float64" where
  "fdiv x y =
     (case (x, y) of
        (Fin a, Fin b) \<Rightarrow> (if b = 0 then inf_of a else Fin (a / b))
      | (NaN, _) \<Rightarrow> NaN
      | (_, NaN) \<Rightarrow> NaN
      | (Fin a, _) \<Rightarrow> Fin 0
      | (PInf, Fin b) \<Rightarrow> (if b < 0 then NInf else PInf)
      | (NInf, Fin b) \<Rightarrow> (if b < 0 then PInf else NInf)
      | (_, _) \<Rightarrow> NaN)"

text \<open>
  With these, \<open>0\<close>, \<open>1\<close>, the numerals, \<open>+\<close>, \<open>*\<close> and \<open>/\<close> are Go's on \<open>float64\<close>. Addition is
  associative and commutative with unit \<open>0\<close> (it would not be with rounding), so a sum
  accumulated in a loop is the sum of the list.
\<close>

instantiation float64 :: "{one, times, inverse, comm_monoid_add, numeral}"
begin

definition zero_float64 :: float64 where
  "zero_float64 = Fin 0"

definition one_float64 :: float64 where
  "one_float64 = Fin 1"

definition plus_float64 :: "float64 \<Rightarrow> float64 \<Rightarrow> float64" where
  "plus_float64 = fadd"

definition times_float64 :: "float64 \<Rightarrow> float64 \<Rightarrow> float64" where
  "times_float64 = fmul"

definition divide_float64 :: "float64 \<Rightarrow> float64 \<Rightarrow> float64" where
  "divide_float64 = fdiv"

definition inverse_float64 :: "float64 \<Rightarrow> float64" where
  "inverse_float64 = fdiv (Fin 1)"

instance
proof
  fix a b c :: float64
  show "a + b + c = a + (b + c)"
    by (cases a; cases b; cases c) (simp_all add: plus_float64_def fadd_def)
  show "a + b = b + a"
    by (cases a; cases b) (simp_all add: plus_float64_def fadd_def)
  show "0 + a = a"
    by (cases a) (simp_all add: plus_float64_def fadd_def zero_float64_def)
qed

end

text \<open>A number that JSON can carry: \<open>encoding/json\<close> has no text for an infinity or a NaN.\<close>

definition finite64 :: "float64 \<Rightarrow> bool" where
  "finite64 x = (case x of Fin a \<Rightarrow> True | _ \<Rightarrow> False)"

text \<open>A timestamp is a count of nanoseconds.\<close>

type_synonym time = int

text \<open>
  \<open>apiResp\<close> is the anonymous struct that \<open>UpdateAllRates\<close> decodes the provider's body
  into. \<open>Rates\<close> is a Go map: \<open>None\<close> is the nil map that decoding leaves behind when
  the body has no \<open>rates\<close> member.
\<close>

record apiResp =
  Base :: string
  Date :: string
  Rates :: "(string \<rightharpoonup> float64) option"

text \<open>
  The standard-library functions the code calls are parameters of the model:
  \<open>strconv.ParseFloat(s, 64)\<close> returns a value and an error, \<open>fmt.Sprintf("%.10f", x)\<close>
  a string, \<open>json.NewDecoder(body).Decode(&apiResp)\<close> an error or the filled struct, and
  \<open>time.Parse("2006-01-02", s)\<close> an error or midnight UTC of that day. \<open>view_range\<close> stands
  for the calendar arithmetic (\<open>time.Date\<close>, \<open>AddDate\<close>, \<open>Weekday\<close>) by which
  \<open>getFilteredTimeEntriesWithStats\<close> turns a view mode and a date into the first and last
  instant of that day, week or month.
\<close>

record stdlib =
  ParseFloat :: "string \<Rightarrow> float64 \<times> string option"
  Sprintf_10f :: "float64 \<Rightarrow> string"
  Decode :: "string \<Rightarrow> string + apiResp"
  ParseDate :: "string \<Rightarrow> string + time"
  view_range :: "string \<Rightarrow> time \<Rightarrow> time \<times> time"

section \<open>The exchange\_rates table and its queries\<close>

text \<open>One row of \<open>exchange_rates\<close> (\<open>db.ExchangeRate\<close>); the rate column reaches Go as a string.\<close>

record ExchangeRate =
  ID :: int
  BaseCurrency :: string
  TargetCurrency :: string
  Rate :: string
  UpdatedAt :: time

text \<open>The statements of \<open>db/queries/exchange_rates.sql\<close>, with their parameters.\<close>

datatype stmt =
    GetExchangeRateStmt string string
  | UpsertExchangeRateStmt string string string
  | DeleteOldExchangeRatesStmt time

datatype sql_error = ErrNoRows | ErrDriver string

text \<open>
  A \<open>context.Context\<close> is what \<open>ctx.Err()\<close> answers at the moment a statement is issued:
  \<open>None\<close> while the context is live, the error once it is cancelled or past its deadline.
\<close>

type_synonym Context = "stmt \<Rightarrow> string option"

text \<open>
  \<open>Queries\<close> is the database behind \<open>*db.Queries\<close>: the table, the sequence behind its
  \<open>SERIAL\<close> key, and what the environment decides for each statement: whether the driver
  fails it (lost connection, rejected value) and what \<open>NOW()\<close> is when it runs.
\<close>

record Queries =
  exchange_rates :: "ExchangeRate list"
  exchange_rates_id_seq :: int
  failing :: "stmt \<Rightarrow> string option"
  NOW :: "stmt \<Rightarrow> time"

definition same_pair :: "string \<Rightarrow> string \<Rightarrow> ExchangeRate \<Rightarrow> bool" where
  "same_pair b t r \<longleftrightarrow> BaseCurrency r = b \<and> TargetCurrency r = t"

text \<open>\<open>SELECT ... WHERE base_currency = $1 AND target_currency = $2\<close>, read as \<open>:one\<close>.\<close>

definition sql_GetExchangeRate :: "ExchangeRate list \<Rightarrow> string \<Rightarrow> string \<Rightarrow> ExchangeRate option" where
  "sql_GetExchangeRate tbl b t = find (same_pair b t) tbl"

text \<open>
  \<open>INSERT ... ON CONFLICT (base_currency, target_currency) DO UPDATE SET rate = $3,
  updated_at = NOW()\<close>. The default of \<open>id\<close> draws from the sequence before the conflict
  is seen, so the sequence advances on both paths.
\<close>

definition sql_UpsertExchangeRate ::
  "ExchangeRate list \<Rightarrow> int \<Rightarrow> time \<Rightarrow> string \<Rightarrow> string \<Rightarrow> string \<Rightarrow> ExchangeRate list" where
  "sql_UpsertExchangeRate tbl new_id now b t r =
     (if \<exists>x \<in> set tbl. same_pair b t x
      then map (\<lambda>x. if same_pair b t x then x\<lparr>Rate := r, UpdatedAt := now\<rparr> else x) tbl
      else tbl @ [\<lparr>ID = new_id, BaseCurrency = b, TargetCurrency = t, Rate = r, UpdatedAt = now\<rparr>])"

text \<open>\<open>DELETE FROM exchange_rates WHERE updated_at < $1\<close>.\<close>

definition sql_DeleteOldExchangeRates :: "ExchangeRate list \<Rightarrow> time \<Rightarrow> ExchangeRate list" where
  "sql_DeleteOldExchangeRates tbl cutoff = filter (\<lambda>x. \<not> UpdatedAt x < cutoff) tbl"

text \<open>
  The generated query methods: a dead context or a driver failure gives an error and
  leaves the table alone; otherwise the statement runs.
\<close>

definition stmt_error :: "Queries \<Rightarrow> Context \<Rightarrow> stmt \<Rightarrow> string option" where
  "stmt_error q ctx s = (case ctx s of Some e \<Rightarrow> Some e | None \<Rightarrow> failing q s)"

definition q_GetExchangeRate :: "Queries \<Rightarrow> Context \<Rightarrow> string \<Rightarrow> string \<Rightarrow> sql_error + ExchangeRate" where
  "q_GetExchangeRate q ctx b t =
     (case stmt_error q ctx (GetExchangeRateStmt b t) of
        Some e \<Rightarrow> Inl (ErrDriver e)
      | None \<Rightarrow>
          (case sql_GetExchangeRate (exchange_rates q) b t of
             None \<Rightarrow> Inl ErrNoRows
           | Some row \<Rightarrow> Inr row))"

definition q_UpsertExchangeRate :: "Queries \<Rightarrow> Context \<Rightarrow> string \<Rightarrow> string \<Rightarrow> string \<Rightarrow> sql_error + Queries" where
  "q_UpsertExchangeRate q ctx b t r =
     (let s = UpsertExchangeRateStmt b t r in
      case stmt_error q ctx s of
        Some e \<Rightarrow> Inl (ErrDriver e)
      | None \<Rightarrow>
          Inr (q\<lparr>exchange_rates :=
                    sql_UpsertExchangeRate (exchange_rates q) (exchange_rates_id_seq q) (NOW q s) b t r,
                  exchange_rates_id_seq := exchange_rates_id_seq q + 1\<rparr>))"

definition q_DeleteOldExchangeRates :: "Queries \<Rightarrow> Context \<Rightarrow> time \<Rightarrow> sql_error + Queries" where
  "q_DeleteOldExchangeRates q ctx cutoff =
     (case stmt_error q ctx (DeleteOldExchangeRatesStmt cutoff) of
        Some e \<Rightarrow> Inl (ErrDriver e)
      | None \<Rightarrow> Inr (q\<lparr>exchange_rates := sql_DeleteOldExchangeRates (exchange_rates q) cutoff\<rparr>))"

section \<open>ExchangeRateService\<close>

text \<open>The errors the service builds with \<open>fmt.Errorf\<close>, each with what it wraps.\<close>

datatype error =
    ErrParseRate string
  | ErrRateNotAvailable
  | ErrQueryRate sql_error
  | ErrFetch string
  | ErrStatus int
  | ErrDecode string
  | ErrUpdateRate string sql_error

text \<open>
  \<open>GetExchangeRate\<close> and \<open>ConvertAmount\<close> return Go's pair of a value and an error, and
  beside it the statements they sent to the database, in order.
\<close>

definition GetExchangeRate ::
  "stdlib \<Rightarrow> Queries \<Rightarrow> Context \<Rightarrow> string \<Rightarrow> string \<Rightarrow> (float64 \<times> error option) \<times> stmt list" where
  "GetExchangeRate L q ctx baseCurrency targetCurrency =
     (if baseCurrency = targetCurrency then ((1, None), [])
      else
        (case q_GetExchangeRate q ctx baseCurrency targetCurrency of
           Inr rateRow \<Rightarrow>
             (case ParseFloat L (Rate rateRow) of
                (rate, Some parseErr) \<Rightarrow> (0, Some (ErrParseRate parseErr))
              | (rate, None) \<Rightarrow> (rate, None))
         | Inl ErrNoRows \<Rightarrow> (0, Some ErrRateNotAvailable)
         | Inl err \<Rightarrow> (0, Some (ErrQueryRate err)),
         [GetExchangeRateStmt baseCurrency targetCurrency]))"

definition ConvertAmount ::
  "stdlib \<Rightarrow> Queries \<Rightarrow> Context \<Rightarrow> float64 \<Rightarrow> string \<Rightarrow> string \<Rightarrow> (float64 \<times> error option) \<times> stmt list" where
  "ConvertAmount L q ctx amount fromCurrency toCurrency =
     (if fromCurrency = toCurrency then ((amount, None), [])
      else
        (case GetExchangeRate L q ctx ''USD'' toCurrency of
           ((rate, Some err), sent) \<Rightarrow> ((0, Some err), sent)
         | ((rate, None), sent) \<Rightarrow>
             (case GetExchangeRate L q ctx ''USD'' fromCurrency of
                ((fromRate, Some err), sent') \<Rightarrow> ((0, Some err), sent @ sent')
              | ((fromRate, None), sent') \<Rightarrow>
                  (let usdAmount = amount / fromRate;
                       convertedAmount = usdAmount * rate
                   in ((convertedAmount, None), sent @ sent')))))"

text \<open>What a caller sees of the two: the value, the error, the statements sent.\<close>

definition rate_of :: "stdlib \<Rightarrow> Queries \<Rightarrow> Context \<Rightarrow> string \<Rightarrow> float64 \<times> error option" where
  "rate_of L q ctx c = fst (GetExchangeRate L q ctx ''USD'' c)"

definition convert :: "stdlib \<Rightarrow> Queries \<Rightarrow> Context \<Rightarrow> float64 \<Rightarrow> string \<Rightarrow> string \<Rightarrow> float64 \<times> error option" where
  "convert L q ctx a x y = fst (ConvertAmount L q ctx a x y)"


subsection \<open>UpdateAllRates\<close>

definition SupportedCurrencies :: "string list" where
  "SupportedCurrencies =
     [''USD'', ''EUR'', ''GBP'', ''JPY'', ''AUD'',
      ''CAD'', ''CHF'', ''CNY'', ''SEK'', ''NZD'',
      ''IDR'', ''SGD'', ''INR'']"

text \<open>What \<open>http.Get(url)\<close> gives back: an error, or a response with its status and body.\<close>

datatype http_result = GetFailed string | Response int string

text \<open>A Go call either returns or panics.\<close>

datatype 'a go_result = Returned 'a | Panicked string

text \<open>
  The loop over \<open>SupportedCurrencies\<close>: a code the mapping lacks is skipped, a failed
  upsert returns at once, and the database keeps what the earlier iterations wrote.
\<close>

fun upsert_loop ::
  "stdlib \<Rightarrow> Context \<Rightarrow> (string \<rightharpoonup> float64) \<Rightarrow> string list \<Rightarrow> Queries \<Rightarrow> nat
     \<Rightarrow> (error option \<times> nat) \<times> Queries" where
  "upsert_loop L ctx rates [] q updatedCount = ((None, updatedCount), q)"
| "upsert_loop L ctx rates (targetCurrency # rest) q updatedCount =
     (case rates targetCurrency of
        None \<Rightarrow> upsert_loop L ctx rates rest q updatedCount
      | Some rate \<Rightarrow>
          (case q_UpsertExchangeRate q ctx ''USD'' targetCurrency (Sprintf_10f L rate) of
             Inl err \<Rightarrow> ((Some (ErrUpdateRate targetCurrency err), updatedCount), q)
           | Inr q' \<Rightarrow> upsert_loop L ctx rates rest q' (updatedCount + 1)))"

text \<open>
  \<open>UpdateAllRates\<close> returns its error and the database it leaves. \<open>http.Get\<close> is not
  given the context, so \<open>ctx\<close> reaches the upserts only.
\<close>

definition UpdateAllRates ::
  "stdlib \<Rightarrow> http_result \<Rightarrow> Queries \<Rightarrow> Context \<Rightarrow> (error option \<times> Queries) go_result" where
  "UpdateAllRates L web q ctx =
     (case web of
        GetFailed err \<Rightarrow> Returned (Some (ErrFetch err), q)
      | Response StatusCode Body \<Rightarrow>
          if StatusCode \<noteq> 200 then Returned (Some (ErrStatus StatusCode), q)
          else
            (case Decode L Body of
               Inl err \<Rightarrow> Returned (Some (ErrDecode err), q)
             | Inr apiResp \<Rightarrow>
                 (case Rates apiResp of
                    None \<Rightarrow> Panicked ''assignment to entry in nil map''
                  | Some rates \<Rightarrow>
                      (case upsert_loop L ctx (rates(''USD'' \<mapsto> 1)) SupportedCurrencies q 0 of
                         ((err, updatedCount), q') \<Rightarrow> Returned (err, q')))))"

section \<open>The statistics handlers\<close>

text \<open>
  The rows the handlers read, with the columns they use. A \<open>sql.NullString\<close> column that
  the code reads through \<open>.String\<close> is that string; the user's currency, read through
  \<open>.Valid\<close>, is an option.
\<close>

record User =
  user_Currency :: "string option"

record Client =
  client_ID :: int
  client_Name :: string
  client_HourlyRate :: string
  client_Currency :: string

record TimeEntry =
  entry_ID :: int
  entry_ClientID :: int
  entry_Date :: time
  entry_Hours :: string
  entry_HourlyRate :: string

record Invoice =
  invoice_ID :: int
  invoice_ClientID :: int
  invoice_InvoiceNumber :: string
  invoice_IssueDate :: time
  invoice_Status :: string

text \<open>
  The other queries the handlers call are given by their results: what each returns for
  its argument, an error or the rows in the order of the query.
\<close>

record AppQueries =
  GetUserByID :: "int \<Rightarrow> sql_error + User"
  GetTimeEntriesByUserID :: "int \<Rightarrow> sql_error + TimeEntry list"
  GetClientsByUserID :: "int \<Rightarrow> sql_error + Client list"
  GetInvoicesByUserID :: "int \<Rightarrow> sql_error + Invoice list"
  GetInvoiceTimeEntries :: "int \<Rightarrow> sql_error + TimeEntry list"

text \<open>\<open>StatsHandler\<close> and \<open>TimeEntryHandler\<close> have the same two fields.\<close>

record Handler =
  queries :: AppQueries
  exchangeService :: Queries

text \<open>A handler answers with an error status and message, or with status 200 and a body.\<close>

datatype 'a reply = ReplyError int string | ReplyOK 'a

text \<open>
  \<open>c.JSON(http.StatusOK, body)\<close>: when a number of the body is an infinity or a NaN, the
  encoder returns an error before anything is written, the handler returns that error, and
  echo answers with status 500. \<open>encodable\<close> says that every number of the body is finite.
\<close>

definition c_JSON_OK :: "bool \<Rightarrow> 'a \<Rightarrow> 'a reply" where
  "c_JSON_OK encodable body =
     (if encodable then ReplyOK body else ReplyError 500 ''Internal Server Error'')"

subsection \<open>The steps the three handlers share\<close>

text \<open>
  Each of \<open>GetDashboardStats\<close>, \<open>GetInvoiceStats\<close> and
  \<open>getFilteredTimeEntriesWithStats\<close> builds the client map, collects the currencies to
  convert and resolves one rate for each, with the same statements. Go ranges over the
  key set of \<open>currenciesNeeded\<close> in no fixed order; here the keys are a list that holds each
  once, and the rates resolved do not depend on its order.
\<close>

definition build_clientsMap :: "Client list \<Rightarrow> (int \<rightharpoonup> Client)" where
  "build_clientsMap clients = foldl (\<lambda>clientsMap client. clientsMap(client_ID client \<mapsto> client)) Map.empty clients"

definition currenciesNeeded :: "Client list \<Rightarrow> string \<Rightarrow> string list" where
  "currenciesNeeded clients userCurrency =
     remdups (filter (\<lambda>currency. currency \<noteq> userCurrency) (map client_Currency clients))"

definition fetch_conversionRates ::
  "stdlib \<Rightarrow> Queries \<Rightarrow> Context \<Rightarrow> string list \<Rightarrow> string \<Rightarrow> (string \<rightharpoonup> float64)" where
  "fetch_conversionRates L ex ctx currencies userCurrency =
     foldl (\<lambda>conversionRates currency.
              case fst (ConvertAmount L ex ctx 1 currency userCurrency) of
                (convertedAmount, Some err) \<Rightarrow> conversionRates(currency \<mapsto> 1)
              | (convertedAmount, None) \<Rightarrow> conversionRates(currency \<mapsto> convertedAmount))
           Map.empty currencies"

definition userCurrency_of :: "User \<Rightarrow> string" where
  "userCurrency_of user = (case user_Currency user of Some s \<Rightarrow> s | None \<Rightarrow> ''USD'')"

definition before_from :: "time option \<Rightarrow> time \<Rightarrow> bool" where
  "before_from fromDate d = (case fromDate of Some f \<Rightarrow> d < f | None \<Rightarrow> False)"

definition after_to :: "time option \<Rightarrow> time \<Rightarrow> bool" where
  "after_to toDate d = (case toDate of Some t \<Rightarrow> t < d | None \<Rightarrow> False)"

text \<open>The sum of \<open>hours * hourlyRate\<close> over the time entries of one invoice.\<close>

definition invoiceTotal_of :: "stdlib \<Rightarrow> TimeEntry list \<Rightarrow> float64" where
  "invoiceTotal_of L invoiceTimeEntries =
     foldl (\<lambda>invoiceTotal entry.
              invoiceTotal + fst (ParseFloat L (entry_Hours entry)) * fst (ParseFloat L (entry_HourlyRate entry)))
           0 invoiceTimeEntries"

definition totalHours_of :: "stdlib \<Rightarrow> TimeEntry list \<Rightarrow> float64" where
  "totalHours_of L invoiceTimeEntries =
     foldl (\<lambda>totalHours entry. totalHours + fst (ParseFloat L (entry_Hours entry))) 0 invoiceTimeEntries"


subsection \<open>GetDashboardStats\<close>

record DashboardStatsResponse =
  dashboard_TotalHours :: float64
  dashboard_TotalRevenue :: float64
  dashboard_UnpaidInvoices :: float64
  dashboard_PaidInvoices :: float64

definition encodable_DashboardStats :: "DashboardStatsResponse \<Rightarrow> bool" where
  "encodable_DashboardStats resp \<longleftrightarrow>
     finite64 (dashboard_TotalHours resp) \<and> finite64 (dashboard_TotalRevenue resp) \<and>
     finite64 (dashboard_UnpaidInvoices resp) \<and> finite64 (dashboard_PaidInvoices resp)"

text \<open>The last instant of the day that starts at \<open>parsed\<close>: 23:59:59.999999999.\<close>

definition endOfDay :: "time \<Rightarrow> time" where
  "endOfDay parsed = parsed + 86399999999999"

text \<open>
  The \<open>from\<close> and \<open>to\<close> query parameters: empty means no bound, an unparsable date is
  an error, and \<open>to\<close> is moved to the end of its day.
\<close>

definition parse_from :: "stdlib \<Rightarrow> string \<Rightarrow> string + time option" where
  "parse_from L fromStr =
     (if fromStr \<noteq> []
      then (case ParseDate L fromStr of Inl err \<Rightarrow> Inl err | Inr parsed \<Rightarrow> Inr (Some parsed))
      else Inr None)"

definition parse_to :: "stdlib \<Rightarrow> string \<Rightarrow> string + time option" where
  "parse_to L toStr =
     (if toStr \<noteq> []
      then (case ParseDate L toStr of Inl err \<Rightarrow> Inl err | Inr parsed \<Rightarrow> Inr (Some (endOfDay parsed)))
      else Inr None)"

text \<open>One round of the loop over the time entries, on \<open>(totalHours, totalRevenue)\<close>.\<close>

definition dashboard_entry_step ::
  "stdlib \<Rightarrow> time option \<Rightarrow> time option \<Rightarrow> (int \<rightharpoonup> Client) \<Rightarrow> (string \<rightharpoonup> float64) \<Rightarrow> string
     \<Rightarrow> float64 \<times> float64 \<Rightarrow> TimeEntry \<Rightarrow> float64 \<times> float64" where
  "dashboard_entry_step L fromDate toDate clientsMap conversionRates userCurrency acc entry =
     (case acc of (totalHours, totalRevenue) \<Rightarrow>
        if before_from fromDate (entry_Date entry) then acc
        else if after_to toDate (entry_Date entry) then acc
        else
          (let hours = fst (ParseFloat L (entry_Hours entry));
               totalHours = totalHours + hours
           in case clientsMap (entry_ClientID entry) of
                Some client \<Rightarrow>
                  (let hourlyRate = fst (ParseFloat L (client_HourlyRate client));
                       entryAmount = hours * hourlyRate;
                       clientCurrency = client_Currency client
                   in if clientCurrency \<noteq> userCurrency
                      then (case conversionRates clientCurrency of
                              Some rate \<Rightarrow> (totalHours, totalRevenue + entryAmount * rate)
                            | None \<Rightarrow> (totalHours, totalRevenue + entryAmount))
                      else (totalHours, totalRevenue + entryAmount))
              | None \<Rightarrow> (totalHours, totalRevenue)))"

definition dashboard_entries ::
  "stdlib \<Rightarrow> time option \<Rightarrow> time option \<Rightarrow> (int \<rightharpoonup> Client) \<Rightarrow> (string \<rightharpoonup> float64) \<Rightarrow> string
     \<Rightarrow> TimeEntry list \<Rightarrow> float64 \<times> float64" where
  "dashboard_entries L fromDate toDate clientsMap conversionRates userCurrency timeEntries =
     foldl (dashboard_entry_step L fromDate toDate clientsMap conversionRates userCurrency) (0, 0) timeEntries"

text \<open>One round of the loop over the invoices, on \<open>(unpaidInvoices, paidInvoices)\<close>.\<close>

definition dashboard_invoice_step ::
  "stdlib \<Rightarrow> AppQueries \<Rightarrow> time option \<Rightarrow> time option \<Rightarrow> (int \<rightharpoonup> Client) \<Rightarrow> (string \<rightharpoonup> float64) \<Rightarrow> string
     \<Rightarrow> float64 \<times> float64 \<Rightarrow> Invoice \<Rightarrow> float64 \<times> float64" where
  "dashboard_invoice_step L qs fromDate toDate clientsMap conversionRates userCurrency acc invoice =
     (case acc of (unpaidInvoices, paidInvoices) \<Rightarrow>
        if before_from fromDate (invoice_IssueDate invoice) then acc
        else if after_to toDate (invoice_IssueDate invoice) then acc
        else
          (case GetInvoiceTimeEntries qs (invoice_ID invoice) of
             Inl err \<Rightarrow> acc
           | Inr invoiceTimeEntries \<Rightarrow>
               (let invoiceTotal = invoiceTotal_of L invoiceTimeEntries
                in case clientsMap (invoice_ClientID invoice) of
                     None \<Rightarrow> acc
                   | Some client \<Rightarrow>
                       (let clientCurrency = client_Currency client;
                            convertedAmount =
                              (if clientCurrency \<noteq> userCurrency
                               then (case conversionRates clientCurrency of
                                       Some rate \<Rightarrow> invoiceTotal * rate
                                     | None \<Rightarrow> invoiceTotal)
                               else invoiceTotal)
                        in if invoice_Status invoice = ''sent'' \<or> invoice_Status invoice = ''overdue''
                           then (unpaidInvoices + convertedAmount, paidInvoices)
                           else if invoice_Status invoice = ''paid''
                           then (unpaidInvoices, paidInvoices + convertedAmount)
                           else acc))))"

definition GetDashboardStats ::
  "stdlib \<Rightarrow> Handler \<Rightarrow> Context \<Rightarrow> int \<Rightarrow> string \<Rightarrow> string \<Rightarrow> DashboardStatsResponse reply" where
  "GetDashboardStats L h ctx userID fromStr toStr =
     (case GetUserByID (queries h) userID of
        Inl err \<Rightarrow> ReplyError 500 ''Failed to get user info''
      | Inr user \<Rightarrow>
     (let userCurrency = userCurrency_of user in
      case parse_from L fromStr of
        Inl err \<Rightarrow> ReplyError 400 ''Invalid from date format. Use YYYY-MM-DD''
      | Inr fromDate \<Rightarrow>
     (case parse_to L toStr of
        Inl err \<Rightarrow> ReplyError 400 ''Invalid to date format. Use YYYY-MM-DD''
      | Inr toDate \<Rightarrow>
     (case GetTimeEntriesByUserID (queries h) userID of
        Inl err \<Rightarrow> ReplyError 500 ''Failed to get time entries''
      | Inr timeEntries \<Rightarrow>
     (case GetClientsByUserID (queries h) userID of
        Inl err \<Rightarrow> ReplyError 500 ''Failed to get clients''
      | Inr clients \<Rightarrow>
     (let clientsMap = build_clientsMap clients;
          conversionRates =
            fetch_conversionRates L (exchangeService h) ctx (currenciesNeeded clients userCurrency) userCurrency;
          (totalHours, totalRevenue) =
            dashboard_entries L fromDate toDate clientsMap conversionRates userCurrency timeEntries
      in case GetInvoicesByUserID (queries h) userID of
           Inl err \<Rightarrow> ReplyError 500 ''Failed to get invoices''
         | Inr invoices \<Rightarrow>
             (let (unpaidInvoices, paidInvoices) =
                    foldl (dashboard_invoice_step L (queries h) fromDate toDate clientsMap conversionRates userCurrency)
                      (0, 0) invoices;
                  resp = \<lparr>dashboard_TotalHours = totalHours,
                          dashboard_TotalRevenue = totalRevenue,
                          dashboard_UnpaidInvoices = unpaidInvoices,
                          dashboard_PaidInvoices = paidInvoices\<rparr>
              in c_JSON_OK (encodable_DashboardStats resp) resp)))))))"

subsection \<open>GetInvoiceStats\<close>

text \<open>
  Of \<open>models.InvoiceResponse\<close> the fields that identify the invoice and carry its client and
  totals are kept; the formatted dates, the notes and the list of entry responses are left out.
  (The numbers of that list are the hours and hourly rates that \<open>ir_TotalAmount\<close> is the sum
  of products of: it is finite only if they are.)
\<close>

record InvoiceResponse =
  ir_ID :: int
  ir_ClientID :: int
  ir_ClientName :: string
  ir_ClientCurrency :: string
  ir_InvoiceNumber :: string
  ir_Status :: string
  ir_TotalHours :: float64
  ir_TotalAmount :: float64

record InvoiceStatsResponse =
  stats_Invoices :: "InvoiceResponse list"
  stats_TotalInvoices :: nat
  stats_TotalAmount :: float64
  stats_PaidAmount :: float64
  stats_UnpaidAmount :: float64

definition encodable_InvoiceStats :: "InvoiceStatsResponse \<Rightarrow> bool" where
  "encodable_InvoiceStats resp \<longleftrightarrow>
     list_all (\<lambda>r. finite64 (ir_TotalHours r) \<and> finite64 (ir_TotalAmount r)) (stats_Invoices resp) \<and>
     finite64 (stats_TotalAmount resp) \<and> finite64 (stats_PaidAmount resp) \<and>
     finite64 (stats_UnpaidAmount resp)"

text \<open>
  One round of the loop over the invoices, on
  \<open>((totalAmount, paidAmount, unpaidAmount), invoiceResponses)\<close>.
\<close>

definition invoice_stats_step ::
  "stdlib \<Rightarrow> AppQueries \<Rightarrow> string \<Rightarrow> (int \<rightharpoonup> Client) \<Rightarrow> (string \<rightharpoonup> float64) \<Rightarrow> string
     \<Rightarrow> (float64 \<times> float64 \<times> float64) \<times> InvoiceResponse list \<Rightarrow> Invoice
     \<Rightarrow> (float64 \<times> float64 \<times> float64) \<times> InvoiceResponse list" where
  "invoice_stats_step L qs statusFilter clientsMap conversionRates userCurrency acc invoice =
     (case acc of ((totalAmount, paidAmount, unpaidAmount), invoiceResponses) \<Rightarrow>
       (case GetInvoiceTimeEntries qs (invoice_ID invoice) of
          Inl err \<Rightarrow> acc
        | Inr timeEntries \<Rightarrow>
            (let totalHours = totalHours_of L timeEntries;
                 invoiceTotal = invoiceTotal_of L timeEntries;
                 (clientName, clientCurrency) =
                   (case clientsMap (invoice_ClientID invoice) of
                      Some client \<Rightarrow> (client_Name client, client_Currency client)
                    | None \<Rightarrow> (''Unknown'', ''USD''));
                 convertedAmount =
                   (if clientCurrency \<noteq> userCurrency
                    then (case conversionRates clientCurrency of
                            Some rate \<Rightarrow> invoiceTotal * rate
                          | None \<Rightarrow> invoiceTotal)
                    else invoiceTotal);
                 totalAmount = totalAmount + convertedAmount;
                 (paidAmount, unpaidAmount) =
                   (if invoice_Status invoice = ''paid'' then (paidAmount + convertedAmount, unpaidAmount)
                    else if invoice_Status invoice = ''sent'' \<or> invoice_Status invoice = ''overdue''
                    then (paidAmount, unpaidAmount + convertedAmount)
                    else (paidAmount, unpaidAmount))
             in if statusFilter \<noteq> ''all'' \<and> invoice_Status invoice \<noteq> statusFilter
                then ((totalAmount, paidAmount, unpaidAmount), invoiceResponses)
                else ((totalAmount, paidAmount, unpaidAmount),
                      invoiceResponses @
                        [\<lparr>ir_ID = invoice_ID invoice,
                          ir_ClientID = invoice_ClientID invoice,
                          ir_ClientName = clientName,
                          ir_ClientCurrency = clientCurrency,
                          ir_InvoiceNumber = invoice_InvoiceNumber invoice,
                          ir_Status = invoice_Status invoice,
                          ir_TotalHours = totalHours,
                          ir_TotalAmount = invoiceTotal\<rparr>]))))"

definition GetInvoiceStats ::
  "stdlib \<Rightarrow> Handler \<Rightarrow> Context \<Rightarrow> int \<Rightarrow> string \<Rightarrow> InvoiceStatsResponse reply" where
  "GetInvoiceStats L h ctx userID statusParam =
     (let statusFilter = (if statusParam = [] then ''all'' else statusParam) in
      case GetUserByID (queries h) userID of
        Inl err \<Rightarrow> ReplyError 500 ''Failed to get user info''
      | Inr user \<Rightarrow>
     (let userCurrency = userCurrency_of user in
      case GetInvoicesByUserID (queries h) userID of
        Inl err \<Rightarrow> ReplyError 500 ''Failed to get invoices''
      | Inr invoices \<Rightarrow>
     (case GetClientsByUserID (queries h) userID of
        Inl err \<Rightarrow> ReplyError 500 ''Failed to get clients''
      | Inr clients \<Rightarrow>
     (let clientsMap = build_clientsMap clients;
          conversionRates =
            fetch_conversionRates L (exchangeService h) ctx (currenciesNeeded clients userCurrency) userCurrency;
          ((totalAmount, paidAmount, unpaidAmount), invoiceResponses) =
            foldl (invoice_stats_step L (queries h) statusFilter clientsMap conversionRates userCurrency)
              ((0, 0, 0), []) invoices;
          response = \<lparr>stats_Invoices = invoiceResponses,
                      stats_TotalInvoices = length invoiceResponses,
                      stats_TotalAmount = totalAmount,
                      stats_PaidAmount = paidAmount,
                      stats_UnpaidAmount = unpaidAmount\<rparr>
      in c_JSON_OK (encodable_InvoiceStats response) response))))"

subsection \<open>getFilteredTimeEntriesWithStats\<close>






section \<open>Notions of the specification\<close>


text \<open>
  The three ways a lookup of \<open>USD \<rightarrow> c\<close> in the table goes wrong: a storage failure, no row,
  or a stored rate that does not parse.
\<close>

definition lookup_fails :: "stdlib \<Rightarrow> Queries \<Rightarrow> Context \<Rightarrow> string \<Rightarrow> bool" where
  "lookup_fails L q ctx c \<longleftrightarrow>
     stmt_error q ctx (GetExchangeRateStmt ''USD'' c) \<noteq> None \<or>
     (case sql_GetExchangeRate (exchange_rates q) ''USD'' c of
        None \<Rightarrow> True
      | Some row \<Rightarrow> snd (ParseFloat L (Rate row)) \<noteq> None)"

text \<open>
  The bridge of the specification: convert to USD, then convert the result from USD; a
  failure of the first step is the failure of the whole.
\<close>

definition via_USD :: "stdlib \<Rightarrow> Queries \<Rightarrow> Context \<Rightarrow> float64 \<Rightarrow> string \<Rightarrow> string \<Rightarrow> float64 \<times> error option" where
  "via_USD L q ctx a x y =
     (case convert L q ctx a x ''USD'' of
        (v, Some e) \<Rightarrow> (0, Some e)
      | (v, None) \<Rightarrow> convert L q ctx v ''USD'' y)"

text \<open>At most one row for each pair of base and target currency.\<close>

definition one_row_per_pair :: "ExchangeRate list \<Rightarrow> bool" where
  "one_row_per_pair tbl \<longleftrightarrow> distinct (map (\<lambda>x. (BaseCurrency x, TargetCurrency x)) tbl)"

definition rows_of :: "ExchangeRate list \<Rightarrow> string \<Rightarrow> string \<Rightarrow> ExchangeRate list" where
  "rows_of tbl b t = filter (same_pair b t) tbl"

text \<open>Any sequence of writes to the table; a statement that fails changes nothing.\<close>

fun run_stmts :: "Queries \<Rightarrow> Context \<Rightarrow> stmt list \<Rightarrow> Queries" where
  "run_stmts q ctx [] = q"
| "run_stmts q ctx (GetExchangeRateStmt b t # ss) = run_stmts q ctx ss"
| "run_stmts q ctx (UpsertExchangeRateStmt b t r # ss) =
     (case q_UpsertExchangeRate q ctx b t r of Inl e \<Rightarrow> run_stmts q ctx ss | Inr q' \<Rightarrow> run_stmts q' ctx ss)"
| "run_stmts q ctx (DeleteOldExchangeRatesStmt cutoff # ss) =
     (case q_DeleteOldExchangeRates q ctx cutoff of Inl e \<Rightarrow> run_stmts q ctx ss | Inr q' \<Rightarrow> run_stmts q' ctx ss)"

text \<open>
  The upsert of code \<open>c\<close> with its rate in \<open>rates\<close> is let through by the context and the
  driver (a code \<open>rates\<close> lacks has no upsert to fail).
\<close>

definition upsert_ok :: "stdlib \<Rightarrow> Queries \<Rightarrow> Context \<Rightarrow> (string \<rightharpoonup> float64) \<Rightarrow> string \<Rightarrow> bool" where
  "upsert_ok L q ctx rates c \<longleftrightarrow>
     (case rates c of
        None \<Rightarrow> True
      | Some r \<Rightarrow> stmt_error q ctx (UpsertExchangeRateStmt ''USD'' c (Sprintf_10f L r)) = None)"

text \<open>
  The multiplier of the aggregation layer for source currency \<open>c\<close> and reporting currency
  \<open>R\<close>: the conversion of one unit, or 1 when that conversion fails.
\<close>

definition multiplier :: "stdlib \<Rightarrow> Queries \<Rightarrow> Context \<Rightarrow> string \<Rightarrow> string \<Rightarrow> float64" where
  "multiplier L ex ctx R c =
     (case convert L ex ctx 1 c R of (v, None) \<Rightarrow> v | (v, Some e) \<Rightarrow> 1)"


text \<open>
  The currency-tagged amounts of each pass. A time entry that passes the date filter and
  whose client is among the user's clients is worth its hours times the client's hourly
  rate, in the client's currency. An invoice whose time entries can be read is worth their
  total, in the currency of its client, or in USD when the client is not among the user's.
\<close>

definition in_range :: "time option \<Rightarrow> time option \<Rightarrow> time \<Rightarrow> bool" where
  "in_range fromDate toDate d \<longleftrightarrow> \<not> before_from fromDate d \<and> \<not> after_to toDate d"




definition invoice_items :: "stdlib \<Rightarrow> AppQueries \<Rightarrow> (int \<rightharpoonup> Client) \<Rightarrow> Invoice list \<Rightarrow> (float64 \<times> string) list" where
  "invoice_items L qs clientsMap invoices =
     concat (map (\<lambda>invoice.
        case GetInvoiceTimeEntries qs (invoice_ID invoice) of
          Inl err \<Rightarrow> []
        | Inr timeEntries \<Rightarrow>
            [(invoiceTotal_of L timeEntries,
              case clientsMap (invoice_ClientID invoice) of
                Some client \<Rightarrow> client_Currency client
              | None \<Rightarrow> ''USD'')]) invoices)"


text \<open>The reads of each handler succeed, with these results.\<close>

definition dashboard_reads ::
  "stdlib \<Rightarrow> Handler \<Rightarrow> int \<Rightarrow> string \<Rightarrow> string \<Rightarrow> User \<Rightarrow> time option \<Rightarrow> time option
     \<Rightarrow> TimeEntry list \<Rightarrow> Client list \<Rightarrow> Invoice list \<Rightarrow> bool" where
  "dashboard_reads L h userID fromStr toStr user fromDate toDate timeEntries clients invoices \<longleftrightarrow>
     GetUserByID (queries h) userID = Inr user \<and>
     parse_from L fromStr = Inr fromDate \<and>
     parse_to L toStr = Inr toDate \<and>
     GetTimeEntriesByUserID (queries h) userID = Inr timeEntries \<and>
     GetClientsByUserID (queries h) userID = Inr clients \<and>
     GetInvoicesByUserID (queries h) userID = Inr invoices"

definition invoice_stats_reads :: "Handler \<Rightarrow> int \<Rightarrow> User \<Rightarrow> Invoice list \<Rightarrow> Client list \<Rightarrow> bool" where
  "invoice_stats_reads h userID user invoices clients \<longleftrightarrow>
     GetUserByID (queries h) userID = Inr user \<and>
     GetInvoicesByUserID (queries h) userID = Inr invoices \<and>
     GetClientsByUserID (queries h) userID = Inr clients"


text \<open>What a reply of \<open>GetInvoiceStats\<close> says besides the invoice list, and the list it shows.\<close>

definition stats_totals :: "InvoiceStatsResponse reply \<Rightarrow> (int \<times> string) + (float64 \<times> float64 \<times> float64)" where
  "stats_totals r =
     (case r of
        ReplyError status msg \<Rightarrow> Inl (status, msg)
      | ReplyOK resp \<Rightarrow> Inr (stats_TotalAmount resp, stats_PaidAmount resp, stats_UnpaidAmount resp))"

definition stats_listed :: "InvoiceStatsResponse reply \<Rightarrow> (InvoiceResponse list \<times> nat) option" where
  "stats_listed r =
     (case r of
        ReplyError status msg \<Rightarrow> None
      | ReplyOK resp \<Rightarrow> Some (stats_Invoices resp, stats_TotalInvoices resp))"

definition shown :: "string \<Rightarrow> InvoiceResponse \<Rightarrow> bool" where
  "shown statusParam r \<longleftrightarrow> statusParam = [] \<or> statusParam = ''all'' \<or> ir_Status r = statusParam"

section \<open>The loops of the handlers in closed form\<close>

text \<open>
  The parts of the loop bodies, named so that each loop can be stated as a sum or a filter:
  what an entry adds to the revenue, the currency an invoice is counted in, the response
  built for an invoice or an entry, and the step of the three invoice totals alone.
\<close>

text \<open>
  What each loop adds to a total in \<open>userCurrency\<close> for an \<open>amount\<close> in \<open>clientCurrency\<close>:
  the three branches that every loop body spells out.
\<close>

definition convertedAmount_of :: "(string \<rightharpoonup> float64) \<Rightarrow> string \<Rightarrow> string \<Rightarrow> float64 \<Rightarrow> float64" where
  "convertedAmount_of conversionRates userCurrency clientCurrency amount =
     (if clientCurrency \<noteq> userCurrency
      then (case conversionRates clientCurrency of Some rate \<Rightarrow> amount * rate | None \<Rightarrow> amount)
      else amount)"

text \<open>What one time entry adds to the revenue of a pass.\<close>

definition entry_revenue :: "stdlib \<Rightarrow> (int \<rightharpoonup> Client) \<Rightarrow> (string \<rightharpoonup> float64) \<Rightarrow> string \<Rightarrow> TimeEntry \<Rightarrow> float64" where
  "entry_revenue L clientsMap conversionRates R entry =
     (case clientsMap (entry_ClientID entry) of
        None \<Rightarrow> 0
      | Some client \<Rightarrow>
          convertedAmount_of conversionRates R (client_Currency client)
            (fst (ParseFloat L (entry_Hours entry)) * fst (ParseFloat L (client_HourlyRate client))))"

definition invoice_currency :: "(int \<rightharpoonup> Client) \<Rightarrow> Invoice \<Rightarrow> string" where
  "invoice_currency clientsMap invoice =
     (case clientsMap (invoice_ClientID invoice) of
        Some client \<Rightarrow> client_Currency client
      | None \<Rightarrow> ''USD'')"

definition invoice_response :: "stdlib \<Rightarrow> (int \<rightharpoonup> Client) \<Rightarrow> Invoice \<Rightarrow> TimeEntry list \<Rightarrow> InvoiceResponse" where
  "invoice_response L clientsMap invoice timeEntries =
     \<lparr>ir_ID = invoice_ID invoice,
      ir_ClientID = invoice_ClientID invoice,
      ir_ClientName = (case clientsMap (invoice_ClientID invoice) of
                         Some client \<Rightarrow> client_Name client | None \<Rightarrow> ''Unknown''),
      ir_ClientCurrency = invoice_currency clientsMap invoice,
      ir_InvoiceNumber = invoice_InvoiceNumber invoice,
      ir_Status = invoice_Status invoice,
      ir_TotalHours = totalHours_of L timeEntries,
      ir_TotalAmount = invoiceTotal_of L timeEntries\<rparr>"

definition invoice_responses :: "stdlib \<Rightarrow> AppQueries \<Rightarrow> (int \<rightharpoonup> Client) \<Rightarrow> Invoice list \<Rightarrow> InvoiceResponse list" where
  "invoice_responses L qs clientsMap invoices =
     concat (map (\<lambda>invoice.
        case GetInvoiceTimeEntries qs (invoice_ID invoice) of
          Inl err \<Rightarrow> []
        | Inr timeEntries \<Rightarrow> [invoice_response L clientsMap invoice timeEntries]) invoices)"

text \<open>The three totals of the invoice statistics after one more invoice.\<close>

definition invoice_totals_step ::
  "stdlib \<Rightarrow> AppQueries \<Rightarrow> (int \<rightharpoonup> Client) \<Rightarrow> (string \<rightharpoonup> float64) \<Rightarrow> string
     \<Rightarrow> float64 \<times> float64 \<times> float64 \<Rightarrow> Invoice \<Rightarrow> float64 \<times> float64 \<times> float64" where
  "invoice_totals_step L qs cm cr R tot invoice =
     (case tot of (ta, pa, ua) \<Rightarrow>
        (case GetInvoiceTimeEntries qs (invoice_ID invoice) of
           Inl err \<Rightarrow> tot
         | Inr timeEntries \<Rightarrow>
             (let amt = convertedAmount_of cr R (invoice_currency cm invoice) (invoiceTotal_of L timeEntries)
              in (ta + amt,
                  if invoice_Status invoice = ''paid'' then pa + amt else pa,
                  if invoice_Status invoice \<noteq> ''paid'' \<and>
                     (invoice_Status invoice = ''sent'' \<or> invoice_Status invoice = ''overdue'')
                  then ua + amt else ua))))"


section \<open>Example data\<close>

text \<open>
  An instance of the library for the examples: a parser of unsigned decimal numerals (the
  form in which a DECIMAL column is read), and stand-ins that format, decode and date just
  what the examples use.
\<close>

definition digit_val :: "char \<Rightarrow> nat option" where
  "digit_val = map_of (zip ''0123456789'' [0, 1, 2, 3, 4, 5, 6, 7, 8, 9])"

fun digits_val :: "string \<Rightarrow> nat \<Rightarrow> nat option" where
  "digits_val [] acc = Some acc"
| "digits_val (c # cs) acc =
     (case digit_val c of None \<Rightarrow> None | Some d \<Rightarrow> digits_val cs (10 * acc + d))"

definition parse_decimal :: "string \<Rightarrow> float64 \<times> string option" where
  "parse_decimal s =
     (let ip = takeWhile (\<lambda>c. c \<noteq> CHR ''.'') s;
          fp = drop 1 (dropWhile (\<lambda>c. c \<noteq> CHR ''.'') s)
      in if ip = [] \<and> fp = [] then (0, Some ''invalid syntax'')
         else (case (digits_val ip 0, digits_val fp 0) of
                 (Some i, Some f) \<Rightarrow> (Fin (real i + real f / 10 ^ length fp), None)
               | _ \<Rightarrow> (0, Some ''invalid syntax'')))"

definition demo_Sprintf_10f :: "float64 \<Rightarrow> string" where
  "demo_Sprintf_10f x =
     (if x = 1 then ''1.0000000000''
      else if x = 92 / 100 then ''0.9200000000''
      else if x = 79 / 100 then ''0.7900000000''
      else ''0.0000000000'')"

definition demo_Decode :: "string \<Rightarrow> string + apiResp" where
  "demo_Decode body =
     (if body = ''{rates:{EUR:0.92,GBP:0.79}}''
      then Inr \<lparr>Base = ''USD'', Date = ''2025-10-27'',
                Rates = Some [''EUR'' \<mapsto> 92 / 100, ''GBP'' \<mapsto> 79 / 100]\<rparr>
      else if body = ''{}''
      then Inr \<lparr>Base = [], Date = [], Rates = None\<rparr>
      else Inl ''invalid character'')"

definition demo_L :: stdlib where
  "demo_L =
     \<lparr>ParseFloat = parse_decimal,
      Sprintf_10f = demo_Sprintf_10f,
      Decode = demo_Decode,
      ParseDate = (\<lambda>s. if s = ''2025-10-27'' then Inr 0 else Inl ''cannot parse''),
      view_range = (\<lambda>viewMode currentDate. (currentDate, endOfDay currentDate))\<rparr>"

definition live :: Context where
  "live = (\<lambda>s. None)"

text \<open>A context whose deadline passes once the first upsert, that of USD, is done.\<close>

definition expiring :: Context where
  "expiring =
     (\<lambda>s. case s of
             UpsertExchangeRateStmt b t r \<Rightarrow> if t = ''USD'' then None else Some ''context deadline exceeded''
           | _ \<Rightarrow> Some ''context deadline exceeded'')"

definition no_rows :: Queries where
  "no_rows = \<lparr>exchange_rates = [], exchange_rates_id_seq = 1, failing = (\<lambda>s. None), NOW = (\<lambda>s. 7)\<rparr>"

definition demo_rates :: Queries where
  "demo_rates =
     \<lparr>exchange_rates =
        [\<lparr>ID = 1, BaseCurrency = ''USD'', TargetCurrency = ''USD'', Rate = ''1.0000000000'', UpdatedAt = 5\<rparr>,
         \<lparr>ID = 2, BaseCurrency = ''USD'', TargetCurrency = ''EUR'', Rate = ''0.9200000000'', UpdatedAt = 5\<rparr>,
         \<lparr>ID = 3, BaseCurrency = ''USD'', TargetCurrency = ''GBP'', Rate = ''0.8000000000'', UpdatedAt = 5\<rparr>,
         \<lparr>ID = 4, BaseCurrency = ''USD'', TargetCurrency = ''INR'', Rate = ''83.0000000000'', UpdatedAt = 5\<rparr>],
      exchange_rates_id_seq = 5, failing = (\<lambda>s. None), NOW = (\<lambda>s. 7)\<rparr>"

text \<open>The stored rates with a rate of zero for EUR.\<close>

definition zero_rates :: Queries where
  "zero_rates =
     \<lparr>exchange_rates =
        [\<lparr>ID = 1, BaseCurrency = ''USD'', TargetCurrency = ''USD'', Rate = ''1.0000000000'', UpdatedAt = 5\<rparr>,
         \<lparr>ID = 2, BaseCurrency = ''USD'', TargetCurrency = ''EUR'', Rate = ''0.0000000000'', UpdatedAt = 5\<rparr>],
      exchange_rates_id_seq = 3, failing = (\<lambda>s. None), NOW = (\<lambda>s. 7)\<rparr>"

text \<open>A context that is already past its deadline.\<close>

definition dead :: Context where
  "dead = (\<lambda>s. Some ''context deadline exceeded'')"

text \<open>A database that refuses the upsert of EUR, and the stored rates behind it.\<close>

definition refusing_EUR :: "stmt \<Rightarrow> string option" where
  "refusing_EUR s =
     (case s of
        UpsertExchangeRateStmt b t r \<Rightarrow> if t = ''EUR'' then Some ''connection refused'' else None
      | _ \<Rightarrow> None)"

definition refused :: Queries where
  "refused = demo_rates\<lparr>failing := refusing_EUR\<rparr>"

text \<open>A body of the provider with rates for EUR and GBP and none for INR.\<close>

definition demo_body :: string where
  "demo_body = ''{rates:{EUR:0.92,GBP:0.79}}''"

definition demo_clients :: "Client list" where
  "demo_clients =
     [\<lparr>client_ID = 1, client_Name = ''Acme'', client_HourlyRate = ''50.00'', client_Currency = ''USD''\<rparr>,
      \<lparr>client_ID = 2, client_Name = ''Berlin'', client_HourlyRate = ''40.00'', client_Currency = ''EUR''\<rparr>]"

definition demo_entries :: "TimeEntry list" where
  "demo_entries =
     [\<lparr>entry_ID = 1, entry_ClientID = 1, entry_Date = 0, entry_Hours = ''1.00'', entry_HourlyRate = ''50.00''\<rparr>,
      \<lparr>entry_ID = 2, entry_ClientID = 2, entry_Date = 0, entry_Hours = ''1.00'', entry_HourlyRate = ''40.00''\<rparr>,
      \<lparr>entry_ID = 3, entry_ClientID = 1, entry_Date = 0, entry_Hours = ''0.20'', entry_HourlyRate = ''50.00''\<rparr>]"

text \<open>A time entry whose client is not among the user's.\<close>

definition orphan_entry :: TimeEntry where
  "orphan_entry =
     \<lparr>entry_ID = 4, entry_ClientID = 99, entry_Date = 0, entry_Hours = ''2.50'', entry_HourlyRate = ''0.00''\<rparr>"

definition demo_invoices :: "Invoice list" where
  "demo_invoices =
     [\<lparr>invoice_ID = 1, invoice_ClientID = 1, invoice_InvoiceNumber = ''INV-1'', invoice_IssueDate = 0,
       invoice_Status = ''paid''\<rparr>,
      \<lparr>invoice_ID = 2, invoice_ClientID = 2, invoice_InvoiceNumber = ''INV-2'', invoice_IssueDate = 0,
       invoice_Status = ''sent''\<rparr>]"

definition demo_queries :: AppQueries where
  "demo_queries =
     \<lparr>GetUserByID = (\<lambda>userID. Inr \<lparr>user_Currency = Some ''USD''\<rparr>),
      GetTimeEntriesByUserID = (\<lambda>userID. Inr demo_entries),
      GetClientsByUserID = (\<lambda>userID. Inr demo_clients),
      GetInvoicesByUserID = (\<lambda>userID. Inr demo_invoices),
      GetInvoiceTimeEntries =
        (\<lambda>invoiceID. if invoiceID = 1 then Inr [demo_entries ! 0, demo_entries ! 2]
                      else Inr [demo_entries ! 1])\<rparr>"

definition demo_handler :: Handler where
  "demo_handler = \<lparr>queries = demo_queries, exchangeService = demo_rates\<rparr>"

text \<open>The same data over the stored rates with a rate of zero for EUR.\<close>

definition zero_handler :: Handler where
  "zero_handler = \<lparr>queries = demo_queries, exchangeService = zero_rates\<rparr>"



section \<open>Arithmetic of float64\<close>

lemma Fin_plus [simp]: "Fin a + Fin b = Fin (a + b)"
  by (simp add: plus_float64_def fadd_def)

lemma Fin_times [simp]: "Fin a * Fin b = Fin (a * b)"
  by (simp add: times_float64_def fmul_def)

lemma Fin_divide [simp]: "Fin a / Fin b = (if b = 0 then inf_of a else Fin (a / b))"
  by (simp add: divide_float64_def fdiv_def)

lemma zero_Fin: "(0 :: float64) = Fin 0"
  by (rule zero_float64_def)

lemma one_Fin: "(1 :: float64) = Fin 1"
  by (rule one_float64_def)

lemma numeral_Fin [simp]: "(numeral k :: float64) = Fin (numeral k)"
proof (induction k)
  case One
  show ?case by (simp add: one_float64_def)
next
  case (Bit0 k)
  have "(numeral (num.Bit0 k) :: float64) = numeral k + numeral k"
    by (rule numeral_Bit0)
  also have "\<dots> = Fin (numeral k + numeral k)"
    by (simp only: Bit0 Fin_plus)
  also have "\<dots> = Fin (numeral (num.Bit0 k))"
    by (simp only: numeral_Bit0)
  finally show ?case .
next
  case (Bit1 k)
  have "(numeral (num.Bit1 k) :: float64) = numeral k + numeral k + 1"
    by (rule numeral_Bit1)
  also have "\<dots> = Fin (numeral k + numeral k + 1)"
    by (simp only: Bit1 Fin_plus one_float64_def)
  also have "\<dots> = Fin (numeral (num.Bit1 k))"
    by (simp only: numeral_Bit1)
  finally show ?case .
qed

text \<open>Multiplying and dividing by 1.0 change nothing, whatever the number.\<close>

lemma times_one [simp]: "x * (1 :: float64) = x"
  by (cases x) (simp_all add: times_float64_def fmul_def one_float64_def inf_of_def)

lemma divide_one [simp]: "x / (1 :: float64) = x"
  by (cases x) (simp_all add: divide_float64_def fdiv_def one_float64_def)

lemma one_times [simp]: "(1 :: float64) * x = x"
  by (cases x) (simp_all add: times_float64_def fmul_def one_float64_def inf_of_def)

lemma Fin_one [simp]: "x * Fin 1 = x" "Fin 1 * x = x" "x / Fin 1 = x"
  by (cases x; simp add: times_float64_def divide_float64_def fmul_def fdiv_def inf_of_def)+

text \<open>A sum is finite exactly when its terms are; a finite product has finite factors.\<close>

lemma finite64_Fin [simp]: "finite64 (Fin a)"
  by (simp add: finite64_def)

lemma finite64_zero [simp]: "finite64 0"
  by (simp add: zero_float64_def)

lemma finite64_plus [simp]: "finite64 (x + y) \<longleftrightarrow> finite64 x \<and> finite64 y"
  by (cases x; cases y) (simp_all add: plus_float64_def fadd_def finite64_def)

lemma finite64_times: "finite64 (x * y) \<Longrightarrow> finite64 x \<and> finite64 y"
  by (cases x; cases y) (simp_all add: times_float64_def fmul_def finite64_def inf_of_def split: if_splits)

lemma finite64_sum_list [simp]: "finite64 (sum_list xs) \<longleftrightarrow> (\<forall>x \<in> set xs. finite64 x)"
  by (induction xs) auto

section \<open>The conversion engine\<close>

lemma rate_of_USD: "rate_of L q ctx ''USD'' = (1, None)"
  by (simp add: rate_of_def GetExchangeRate_def)

lemma rate_of_cases:
  "c \<noteq> ''USD'' \<Longrightarrow>
   rate_of L q ctx c =
     (case stmt_error q ctx (GetExchangeRateStmt ''USD'' c) of
        Some e \<Rightarrow> (0, Some (ErrQueryRate (ErrDriver e)))
      | None \<Rightarrow>
          (case sql_GetExchangeRate (exchange_rates q) ''USD'' c of
             None \<Rightarrow> (0, Some ErrRateNotAvailable)
           | Some row \<Rightarrow>
               (case ParseFloat L (Rate row) of
                  (rate, Some parseErr) \<Rightarrow> (0, Some (ErrParseRate parseErr))
                | (rate, None) \<Rightarrow> (rate, None))))"
  by (auto simp: rate_of_def GetExchangeRate_def q_GetExchangeRate_def split: option.splits prod.splits)


lemma rate_of_fails: "snd (rate_of L q ctx c) \<noteq> None \<longleftrightarrow> c \<noteq> ''USD'' \<and> lookup_fails L q ctx c"
  by (cases "c = ''USD''") (auto simp: rate_of_USD rate_of_cases lookup_fails_def split: option.splits prod.splits)

lemma convert_unfold:
  "convert L q ctx a x y =
     (if x = y then (a, None)
      else case rate_of L q ctx y of
             (rate, Some err) \<Rightarrow> (0, Some err)
           | (rate, None) \<Rightarrow>
               (case rate_of L q ctx x of
                  (fromRate, Some err) \<Rightarrow> (0, Some err)
                | (fromRate, None) \<Rightarrow> (a / fromRate * rate, None)))"
  by (auto simp: convert_def rate_of_def ConvertAmount_def Let_def split: prod.splits option.splits)

lemma demo_rate_EUR: "rate_of demo_L demo_rates live ''EUR'' = (92 / 100, None)"
  by (simp add: rate_of_cases stmt_error_def live_def demo_rates_def sql_GetExchangeRate_def
      same_pair_def demo_L_def parse_decimal_def digit_val_def)

lemma demo_rate_GBP: "rate_of demo_L demo_rates live ''GBP'' = (80 / 100, None)"
  by (simp add: rate_of_cases stmt_error_def live_def demo_rates_def sql_GetExchangeRate_def
      same_pair_def demo_L_def parse_decimal_def digit_val_def)

lemma no_rows_rate: "c \<noteq> ''USD'' \<Longrightarrow> rate_of L no_rows live c = (0, Some ErrRateNotAvailable)"
  by (simp add: rate_of_cases stmt_error_def live_def no_rows_def sql_GetExchangeRate_def)

text \<open>
  A stored rate of zero is resolved like any other, and dividing by it gives no error: the
  amount is an infinity, or NaN for an amount of zero.
\<close>

lemma zero_rate_EUR: "rate_of demo_L zero_rates live ''EUR'' = (Fin 0, None)"
  by (simp add: rate_of_cases stmt_error_def live_def zero_rates_def sql_GetExchangeRate_def
      same_pair_def demo_L_def parse_decimal_def digit_val_def)

lemma zero_rate_conversion:
  "convert demo_L zero_rates live 100 ''EUR'' ''USD'' = (PInf, None)"
  "convert demo_L zero_rates live 0 ''EUR'' ''USD'' = (NaN, None)"
  "convert demo_L zero_rates live 1 ''EUR'' ''USD'' = (PInf, None)"
  by (simp_all add: convert_unfold zero_rate_EUR rate_of_USD one_Fin zero_Fin inf_of_def)



text \<open>
  Claim C3. For every amount and every currency, supported or not, converting from the
  currency to itself returns the amount as it is, with no error and with no statement sent to
  the database, whatever the table holds and whatever the database and the context would
  answer.
\<close>

theorem ConvertAmount_same_currency: "ConvertAmount L q ctx a c c = ((a, None), [])"
  by (simp add: ConvertAmount_def)

text \<open>
  Claim C4, as stated, fails where source and target are the same currency other than USD
  and no rate is stored: the direct conversion returns the amount, the bridge through USD
  fails on the missing rate.
\<close>

theorem bridge_fails_on_same_currency:
  "convert demo_L no_rows live 100 ''EUR'' ''EUR'' = (100, None) \<and>
   via_USD demo_L no_rows live 100 ''EUR'' ''EUR'' = (0, Some ErrRateNotAvailable)"
  by (simp add: via_USD_def convert_unfold no_rows_rate rate_of_USD)

text \<open>
  Claim C4, amended. When the two currencies differ, or both are USD, the direct conversion
  and the bridge through USD return the same amount, and one succeeds exactly when the other
  does.
\<close>

theorem ConvertAmount_bridge:
  "x \<noteq> y \<or> x = ''USD'' \<Longrightarrow>
   fst (convert L q ctx a x y) = fst (via_USD L q ctx a x y) \<and>
   (snd (convert L q ctx a x y) = None \<longleftrightarrow> snd (via_USD L q ctx a x y) = None)"
  by (auto simp: via_USD_def convert_unfold rate_of_USD split: prod.splits option.splits)

theorem ConvertAmount_bridge_witness:
  "''EUR'' \<noteq> ''GBP'' \<and>
   convert demo_L demo_rates live 100 ''EUR'' ''GBP'' = (100 / (92 / 100) * (80 / 100), None) \<and>
   fst (via_USD demo_L demo_rates live 100 ''EUR'' ''GBP'') = 100 / (92 / 100) * (80 / 100) \<and>
   snd (via_USD demo_L demo_rates live 100 ''EUR'' ''GBP'') = None"
  using ConvertAmount_bridge [of "''EUR''" "''GBP''" demo_L demo_rates live 100]
  by (simp add: convert_unfold demo_rate_EUR demo_rate_GBP)

text \<open>
  Claim C5. \<open>ConvertAmount\<close> returns an error exactly when the currencies differ and the
  lookup of the target's or of the source's rate fails; a lookup fails exactly when its
  currency is not USD and the storage fails, the row is absent or the stored rate does not
  parse. With an error the amount returned is 0, and the error is the one of the lookup
  that failed, the target's first.
\<close>

theorem ConvertAmount_error_iff:
  "(snd (convert L q ctx a from to) \<noteq> None \<longleftrightarrow>
      from \<noteq> to \<and> (snd (rate_of L q ctx to) \<noteq> None \<or> snd (rate_of L q ctx from) \<noteq> None)) \<and>
   (snd (rate_of L q ctx c) \<noteq> None \<longleftrightarrow> c \<noteq> ''USD'' \<and> lookup_fails L q ctx c) \<and>
   (snd (convert L q ctx a from to) \<noteq> None \<longrightarrow>
      fst (convert L q ctx a from to) = 0 \<and>
      snd (convert L q ctx a from to) =
        (if snd (rate_of L q ctx to) \<noteq> None then snd (rate_of L q ctx to) else snd (rate_of L q ctx from)))"
proof (intro conjI)
  show "snd (convert L q ctx a from to) \<noteq> None \<longleftrightarrow>
      from \<noteq> to \<and> (snd (rate_of L q ctx to) \<noteq> None \<or> snd (rate_of L q ctx from) \<noteq> None)"
    by (auto simp: convert_unfold split: prod.splits option.splits)
  show "snd (rate_of L q ctx c) \<noteq> None \<longleftrightarrow> c \<noteq> ''USD'' \<and> lookup_fails L q ctx c"
    by (rule rate_of_fails)
  show "snd (convert L q ctx a from to) \<noteq> None \<longrightarrow>
      fst (convert L q ctx a from to) = 0 \<and>
      snd (convert L q ctx a from to) =
        (if snd (rate_of L q ctx to) \<noteq> None then snd (rate_of L q ctx to) else snd (rate_of L q ctx from))"
    by (auto simp: convert_unfold split: prod.splits option.splits)
qed

theorem ConvertAmount_error_iff_witness:
  "lookup_fails demo_L no_rows live ''EUR'' \<and>
   snd (rate_of demo_L no_rows live ''EUR'') \<noteq> None \<and>
   snd (convert demo_L no_rows live 100 ''EUR'' ''USD'') \<noteq> None \<and>
   fst (convert demo_L no_rows live 100 ''EUR'' ''USD'') = 0 \<and>
   snd (convert demo_L no_rows live 100 ''EUR'' ''USD'') = Some ErrRateNotAvailable"
  using ConvertAmount_error_iff [of demo_L no_rows live 100 "''EUR''" "''USD''" "''EUR''"]
  by (simp add: no_rows_rate rate_of_USD)

section \<open>The rate store\<close>

lemma upsert_keeps_one_row:
  assumes "one_row_per_pair tbl"
  shows "one_row_per_pair (sql_UpsertExchangeRate tbl i now b t r)"
proof (cases "\<exists>x \<in> set tbl. same_pair b t x")
  case True
  let ?f = "\<lambda>x. if same_pair b t x then x\<lparr>Rate := r, UpdatedAt := now\<rparr> else x"
  have k: "map (\<lambda>x. (BaseCurrency x, TargetCurrency x)) (map ?f tbl)
        = map (\<lambda>x. (BaseCurrency x, TargetCurrency x)) tbl"
    by (induction tbl) auto
  have eq: "sql_UpsertExchangeRate tbl i now b t r = map ?f tbl"
    using True by (simp add: sql_UpsertExchangeRate_def)
  show ?thesis
    unfolding one_row_per_pair_def eq k using assms unfolding one_row_per_pair_def .
next
  case False
  then have "(b, t) \<notin> set (map (\<lambda>x. (BaseCurrency x, TargetCurrency x)) tbl)"
    by (auto simp: same_pair_def)
  moreover have "sql_UpsertExchangeRate tbl i now b t r
      = tbl @ [\<lparr>ID = i, BaseCurrency = b, TargetCurrency = t, Rate = r, UpdatedAt = now\<rparr>]"
    using False by (simp add: sql_UpsertExchangeRate_def)
  ultimately show ?thesis
    using assms by (simp add: one_row_per_pair_def)
qed

lemma delete_keeps_one_row:
  "one_row_per_pair tbl \<Longrightarrow> one_row_per_pair (sql_DeleteOldExchangeRates tbl cutoff)"
  by (simp add: one_row_per_pair_def sql_DeleteOldExchangeRates_def distinct_map_filter)

lemma rows_of_upsert_same:
  "rows_of (sql_UpsertExchangeRate tbl i now b t r) b t =
     (if rows_of tbl b t = []
      then [\<lparr>ID = i, BaseCurrency = b, TargetCurrency = t, Rate = r, UpdatedAt = now\<rparr>]
      else map (\<lambda>x. x\<lparr>Rate := r, UpdatedAt := now\<rparr>) (rows_of tbl b t))"
proof (cases "\<exists>x \<in> set tbl. same_pair b t x")
  case True
  let ?f = "\<lambda>x. if same_pair b t x then x\<lparr>Rate := r, UpdatedAt := now\<rparr> else x"
  from True have ne: "rows_of tbl b t \<noteq> []"
    by (auto simp: rows_of_def filter_empty_conv)
  have "filter (same_pair b t) (map ?f tbl)
        = map (\<lambda>x. x\<lparr>Rate := r, UpdatedAt := now\<rparr>) (filter (same_pair b t) tbl)"
    by (induction tbl) (auto simp: same_pair_def)
  moreover have "sql_UpsertExchangeRate tbl i now b t r = map ?f tbl"
    using True by (simp add: sql_UpsertExchangeRate_def)
  ultimately show ?thesis
    using ne by (simp add: rows_of_def)
next
  case False
  then have e: "filter (same_pair b t) tbl = []"
    by (auto simp: filter_empty_conv)
  have "sql_UpsertExchangeRate tbl i now b t r
      = tbl @ [\<lparr>ID = i, BaseCurrency = b, TargetCurrency = t, Rate = r, UpdatedAt = now\<rparr>]"
    using False by (simp add: sql_UpsertExchangeRate_def)
  then show ?thesis
    by (simp add: rows_of_def e same_pair_def)
qed

lemma rows_of_upsert_other:
  assumes d: "(b', t') \<noteq> (b, t)"
  shows "rows_of (sql_UpsertExchangeRate tbl i now b t r) b' t' = rows_of tbl b' t'"
proof (cases "\<exists>x \<in> set tbl. same_pair b t x")
  case True
  let ?f = "\<lambda>x. if same_pair b t x then x\<lparr>Rate := r, UpdatedAt := now\<rparr> else x"
  have "filter (same_pair b' t') (map ?f tbl) = filter (same_pair b' t') tbl"
    using d by (induction tbl) (auto simp: same_pair_def)
  moreover have "sql_UpsertExchangeRate tbl i now b t r = map ?f tbl"
    using True by (simp add: sql_UpsertExchangeRate_def)
  ultimately show ?thesis
    by (simp add: rows_of_def)
next
  case False
  have "sql_UpsertExchangeRate tbl i now b t r
      = tbl @ [\<lparr>ID = i, BaseCurrency = b, TargetCurrency = t, Rate = r, UpdatedAt = now\<rparr>]"
    using False by (simp add: sql_UpsertExchangeRate_def)
  then show ?thesis
    using d by (auto simp: rows_of_def same_pair_def)
qed

lemma one_row_rows_of: "one_row_per_pair tbl \<Longrightarrow> length (rows_of tbl b t) \<le> 1"
proof (induction tbl)
  case Nil
  then show ?case by (simp add: rows_of_def)
next
  case (Cons x xs)
  show ?case
  proof (cases "same_pair b t x")
    case True
    with Cons.prems have "\<forall>y \<in> set xs. \<not> same_pair b t y"
      by (auto simp: one_row_per_pair_def same_pair_def image_iff)
    then have "rows_of xs b t = []"
      by (auto simp: rows_of_def filter_empty_conv)
    with True show ?thesis by (simp add: rows_of_def)
  next
    case False
    with Cons show ?thesis by (simp add: rows_of_def one_row_per_pair_def)
  qed
qed

lemma upsert_twice:
  assumes "one_row_per_pair tbl"
  shows "\<exists>row. rows_of (sql_UpsertExchangeRate (sql_UpsertExchangeRate tbl i1 t1 b t r1) i2 t2 b t r2) b t = [row]
           \<and> Rate row = r2 \<and> UpdatedAt row = t2"
proof -
  let ?first = "sql_UpsertExchangeRate tbl i1 t1 b t r1"
  have ne: "rows_of ?first b t \<noteq> []"
    by (simp add: rows_of_upsert_same)
  have "length (rows_of ?first b t) \<le> 1"
    using assms by (intro one_row_rows_of upsert_keeps_one_row)
  with ne obtain x where x: "rows_of ?first b t = [x]"
    by (cases "rows_of ?first b t") auto
  show ?thesis
    using ne x by (simp add: rows_of_upsert_same [of ?first])
qed

lemma upsert_existing_length:
  "\<exists>x \<in> set tbl. same_pair b t x \<Longrightarrow> length (sql_UpsertExchangeRate tbl i now b t r) = length tbl"
  by (simp add: sql_UpsertExchangeRate_def)

lemma run_stmts_one_row:
  "one_row_per_pair (exchange_rates q) \<Longrightarrow> one_row_per_pair (exchange_rates (run_stmts q ctx ss))"
proof (induction q ctx ss rule: run_stmts.induct)
  case (1 q ctx)
  then show ?case by simp
next
  case (2 q ctx b t ss)
  then show ?case by simp
next
  case (3 q ctx b t r ss)
  show ?case
  proof (cases "q_UpsertExchangeRate q ctx b t r")
    case (Inl e)
    with 3 show ?thesis by simp
  next
    case (Inr q')
    then have "one_row_per_pair (exchange_rates q')"
      using "3.prems"
      by (auto simp: q_UpsertExchangeRate_def Let_def upsert_keeps_one_row split: option.splits)
    with 3 Inr show ?thesis by simp
  qed
next
  case (4 q ctx cutoff ss)
  show ?case
  proof (cases "q_DeleteOldExchangeRates q ctx cutoff")
    case (Inl e)
    with 4 show ?thesis by simp
  next
    case (Inr q')
    then have "one_row_per_pair (exchange_rates q')"
      using "4.prems"
      by (auto simp: q_DeleteOldExchangeRates_def delete_keeps_one_row split: option.splits)
    with 4 Inr show ?thesis by simp
  qed
qed

text \<open>
  Claim C8. The table never holds two rows for one pair of base and target currency: the
  empty table does not, an upsert and a deletion of old rows keep it so, and so does every
  sequence of statements. After an upsert of a pair followed by a second upsert of the same
  pair, exactly one row exists for the pair, with the rate and the timestamp of the second; an
  upsert of a pair that has a row leaves the number of rows as it was.
\<close>

theorem exchange_rates_one_row_per_pair:
  "one_row_per_pair [] \<and>
   (one_row_per_pair tbl \<longrightarrow>
      one_row_per_pair (sql_UpsertExchangeRate tbl i now b t r) \<and>
      one_row_per_pair (sql_DeleteOldExchangeRates tbl cutoff)) \<and>
   (one_row_per_pair (exchange_rates q) \<longrightarrow> one_row_per_pair (exchange_rates (run_stmts q ctx ss))) \<and>
   (one_row_per_pair tbl \<longrightarrow>
      (\<exists>row. rows_of (sql_UpsertExchangeRate (sql_UpsertExchangeRate tbl i1 t1 b t r1) i2 t2 b t r2) b t = [row]
         \<and> Rate row = r2 \<and> UpdatedAt row = t2)) \<and>
   ((\<exists>x \<in> set tbl. same_pair b t x) \<longrightarrow> length (sql_UpsertExchangeRate tbl i now b t r) = length tbl)"
  using upsert_keeps_one_row delete_keeps_one_row run_stmts_one_row upsert_twice upsert_existing_length
  by (simp add: one_row_per_pair_def)

theorem exchange_rates_one_row_per_pair_witness:
  "one_row_per_pair (exchange_rates demo_rates) \<and>
   one_row_per_pair (sql_UpsertExchangeRate (exchange_rates demo_rates) 5 8 ''USD'' ''EUR'' ''0.9500000000'') \<and>
   rows_of (sql_UpsertExchangeRate
              (sql_UpsertExchangeRate (exchange_rates demo_rates) 5 8 ''USD'' ''EUR'' ''0.9200000000'')
              6 9 ''USD'' ''EUR'' ''0.9500000000'') ''USD'' ''EUR''
     = [\<lparr>ID = 2, BaseCurrency = ''USD'', TargetCurrency = ''EUR'', Rate = ''0.9500000000'', UpdatedAt = 9\<rparr>] \<and>
   length (sql_UpsertExchangeRate (exchange_rates demo_rates) 5 8 ''USD'' ''EUR'' ''0.9500000000'') = 4"
proof -
  have inv: "one_row_per_pair (exchange_rates demo_rates)"
    by (simp add: one_row_per_pair_def demo_rates_def)
  have row: "\<exists>x \<in> set (exchange_rates demo_rates). same_pair ''USD'' ''EUR'' x"
    by (simp add: demo_rates_def same_pair_def)
  have len: "length (exchange_rates demo_rates) = 4"
    by (simp add: demo_rates_def)
  note all = exchange_rates_one_row_per_pair
    [where tbl = "exchange_rates demo_rates" and i = 5 and now = 8 and b = "''USD''" and t = "''EUR''"
       and r = "''0.9500000000''"]
  have kept: "one_row_per_pair (sql_UpsertExchangeRate (exchange_rates demo_rates) 5 8 ''USD'' ''EUR'' ''0.9500000000'')"
    using all inv by blast
  have over: "length (sql_UpsertExchangeRate (exchange_rates demo_rates) 5 8 ''USD'' ''EUR'' ''0.9500000000'') = 4"
    using all row len by simp
  have twice: "rows_of (sql_UpsertExchangeRate
              (sql_UpsertExchangeRate (exchange_rates demo_rates) 5 8 ''USD'' ''EUR'' ''0.9200000000'')
              6 9 ''USD'' ''EUR'' ''0.9500000000'') ''USD'' ''EUR''
     = [\<lparr>ID = 2, BaseCurrency = ''USD'', TargetCurrency = ''EUR'', Rate = ''0.9500000000'', UpdatedAt = 9\<rparr>]"
    by (simp add: demo_rates_def sql_UpsertExchangeRate_def rows_of_def same_pair_def)
  show ?thesis
    using inv kept twice over by blast
qed

section \<open>The rate refresher\<close>

lemma q_Upsert_env:
  "q_UpsertExchangeRate q ctx b t r = Inr q' \<Longrightarrow> failing q' = failing q \<and> NOW q' = NOW q"
  by (auto simp: q_UpsertExchangeRate_def Let_def split: option.splits)

lemma q_Upsert_rows:
  "q_UpsertExchangeRate q ctx b t r = Inr q' \<Longrightarrow>
   exchange_rates q' =
     sql_UpsertExchangeRate (exchange_rates q) (exchange_rates_id_seq q) (NOW q (UpsertExchangeRateStmt b t r)) b t r"
  by (auto simp: q_UpsertExchangeRate_def Let_def split: option.splits)

lemma q_Upsert_Inl:
  "q_UpsertExchangeRate q ctx b t r = Inl err \<longleftrightarrow>
     (\<exists>e. stmt_error q ctx (UpsertExchangeRateStmt b t r) = Some e \<and> err = ErrDriver e)"
  by (auto simp: q_UpsertExchangeRate_def Let_def split: option.splits)

lemma upsert_ok_env:
  "failing q' = failing q \<Longrightarrow> upsert_ok L q' ctx rates = upsert_ok L q ctx rates"
  by (rule ext) (simp add: upsert_ok_def stmt_error_def split: option.splits)

lemma upsert_loop_env:
  "failing (snd (upsert_loop L ctx rates cs q n)) = failing q \<and>
   NOW (snd (upsert_loop L ctx rates cs q n)) = NOW q"
proof (induction cs arbitrary: q n)
  case Nil
  then show ?case by simp
next
  case (Cons c cs)
  show ?case
  proof (cases "rates c")
    case None
    with Cons show ?thesis by simp
  next
    case (Some r)
    show ?thesis
    proof (cases "q_UpsertExchangeRate q ctx ''USD'' c (Sprintf_10f L r)")
      case (Inl e)
      with Some show ?thesis by simp
    next
      case (Inr q')
      with Some Cons [of q' "n + 1"] q_Upsert_env [OF Inr] show ?thesis by simp
    qed
  qed
qed

lemma upsert_loop_untouched:
  "b \<noteq> ''USD'' \<or> t \<notin> set cs \<or> rates t = None \<Longrightarrow>
   rows_of (exchange_rates (snd (upsert_loop L ctx rates cs q n))) b t = rows_of (exchange_rates q) b t"
proof (induction cs arbitrary: q n)
  case Nil
  then show ?case by simp
next
  case (Cons c cs)
  then have rest: "b \<noteq> ''USD'' \<or> t \<notin> set cs \<or> rates t = None" by auto
  show ?case
  proof (cases "rates c")
    case None
    with Cons.IH [OF rest] show ?thesis by simp
  next
    case (Some r)
    with Cons.prems have ne: "(b, t) \<noteq> (''USD'', c)" by auto
    show ?thesis
    proof (cases "q_UpsertExchangeRate q ctx ''USD'' c (Sprintf_10f L r)")
      case (Inl e)
      with Some show ?thesis by simp
    next
      case (Inr q')
      have "rows_of (exchange_rates q') b t = rows_of (exchange_rates q) b t"
        by (simp add: q_Upsert_rows [OF Inr] rows_of_upsert_other [OF ne])
      with Some Inr Cons.IH [OF rest, of q' "n + 1"] show ?thesis by simp
    qed
  qed
qed

lemma upsert_loop_append:
  "upsert_loop L ctx rates (pre @ rest) q n =
     (case upsert_loop L ctx rates pre q n of
        ((None, n'), q') \<Rightarrow> upsert_loop L ctx rates rest q' n'
      | ((Some e, n'), q') \<Rightarrow> ((Some e, n'), q'))"
proof (induction pre arbitrary: q n)
  case Nil
  then show ?case by simp
next
  case (Cons c pre)
  show ?case
  proof (cases "rates c")
    case None
    then show ?thesis by (simp add: Cons)
  next
    case (Some r)
    show ?thesis
    proof (cases "q_UpsertExchangeRate q ctx ''USD'' c (Sprintf_10f L r)")
      case (Inl e)
      with Some show ?thesis by simp
    next
      case (Inr q')
      with Some show ?thesis by (simp add: Cons)
    qed
  qed
qed

lemma upsert_loop_all_ok:
  "\<forall>c \<in> set cs. upsert_ok L q ctx rates c \<Longrightarrow> fst (fst (upsert_loop L ctx rates cs q n)) = None"
proof (induction cs arbitrary: q n)
  case Nil
  then show ?case by simp
next
  case (Cons c cs)
  show ?case
  proof (cases "rates c")
    case None
    with Cons show ?thesis by simp
  next
    case (Some r)
    with Cons.prems have ok: "stmt_error q ctx (UpsertExchangeRateStmt ''USD'' c (Sprintf_10f L r)) = None"
      by (simp add: upsert_ok_def)
    then obtain q' where q': "q_UpsertExchangeRate q ctx ''USD'' c (Sprintf_10f L r) = Inr q'"
      by (simp add: q_UpsertExchangeRate_def Let_def)
    have "upsert_ok L q' ctx rates = upsert_ok L q ctx rates"
      using q_Upsert_env [OF q'] by (intro upsert_ok_env) simp
    then have "\<forall>c \<in> set cs. upsert_ok L q' ctx rates c"
      using Cons.prems by simp
    with Some q' Cons.IH [of q' "n + 1"] show ?thesis by simp
  qed
qed

lemma upsert_loop_written:
  "distinct cs \<Longrightarrow> \<forall>c \<in> set cs. upsert_ok L q ctx rates c \<Longrightarrow> c \<in> set cs \<Longrightarrow> rates c = Some r \<Longrightarrow>
   rows_of (exchange_rates (snd (upsert_loop L ctx rates cs q n))) ''USD'' c \<noteq> [] \<and>
   (\<forall>x \<in> set (rows_of (exchange_rates (snd (upsert_loop L ctx rates cs q n))) ''USD'' c).
      Rate x = Sprintf_10f L r \<and>
      UpdatedAt x = NOW q (UpsertExchangeRateStmt ''USD'' c (Sprintf_10f L r)))"
proof (induction cs arbitrary: q n)
  case Nil
  then show ?case by simp
next
  case (Cons d cs)
  show ?case
  proof (cases "rates d")
    case None
    with Cons.prems have "c \<in> set cs" "distinct cs" "\<forall>c \<in> set cs. upsert_ok L q ctx rates c"
      by auto
    from Cons.IH [OF this(2) this(3) this(1) Cons.prems(4), of n] None show ?thesis
      by simp
  next
    case (Some rd)
    with Cons.prems have ok: "stmt_error q ctx (UpsertExchangeRateStmt ''USD'' d (Sprintf_10f L rd)) = None"
      by (simp add: upsert_ok_def)
    then obtain q' where q': "q_UpsertExchangeRate q ctx ''USD'' d (Sprintf_10f L rd) = Inr q'"
      by (simp add: q_UpsertExchangeRate_def Let_def)
    have env: "failing q' = failing q" "NOW q' = NOW q"
      using q_Upsert_env [OF q'] by simp_all
    have "upsert_ok L q' ctx rates = upsert_ok L q ctx rates"
      using env by (intro upsert_ok_env)
    then have oks: "\<forall>c \<in> set cs. upsert_ok L q' ctx rates c"
      using Cons.prems by simp
    have step: "upsert_loop L ctx rates (d # cs) q n = upsert_loop L ctx rates cs q' (n + 1)"
      using Some q' by simp
    show ?thesis
    proof (cases "c = d")
      case True
      with Cons.prems have "c \<notin> set cs" by simp
      then have same: "rows_of (exchange_rates (snd (upsert_loop L ctx rates cs q' (n + 1)))) ''USD'' c
                     = rows_of (exchange_rates q') ''USD'' c"
        by (simp add: upsert_loop_untouched)
      from True Some Cons.prems have rd: "rd = r" by simp
      show ?thesis
        unfolding step same using True rd
        by (auto simp: q_Upsert_rows [OF q'] rows_of_upsert_same)
    next
      case False
      with Cons.prems have "c \<in> set cs" "distinct cs" by auto
      from Cons.IH [OF this(2) oks this(1) Cons.prems(4), of "n + 1"] show ?thesis
        unfolding step by (simp add: env)
    qed
  qed
qed

lemma upsert_loop_stops:
  assumes "\<forall>x \<in> set pre. upsert_ok L q ctx rates x"
    and "rates c = Some r"
    and "stmt_error q ctx (UpsertExchangeRateStmt ''USD'' c (Sprintf_10f L r)) = Some e"
  shows "fst (fst (upsert_loop L ctx rates (pre @ c # post) q n)) = Some (ErrUpdateRate c (ErrDriver e)) \<and>
         snd (upsert_loop L ctx rates (pre @ c # post) q n) = snd (upsert_loop L ctx rates pre q n)"
proof -
  obtain n' q' where pre: "upsert_loop L ctx rates pre q n = ((None, n'), q')"
    using upsert_loop_all_ok [OF assms(1), of n]
    by (cases "upsert_loop L ctx rates pre q n") auto
  have "failing q' = failing q"
    using upsert_loop_env [of L ctx rates pre q n] pre by simp
  then have "stmt_error q' ctx (UpsertExchangeRateStmt ''USD'' c (Sprintf_10f L r)) = Some e"
    using assms(3) by (simp add: stmt_error_def split: option.splits)
  then have "q_UpsertExchangeRate q' ctx ''USD'' c (Sprintf_10f L r) = Inl (ErrDriver e)"
    by (simp add: q_Upsert_Inl)
  then show ?thesis
    using assms(2) pre by (simp add: upsert_loop_append)
qed

lemma UpdateAllRates_decoded:
  "Decode L body = Inr resp \<Longrightarrow> Rates resp = Some m \<Longrightarrow>
   UpdateAllRates L (Response 200 body) q ctx =
     Returned (fst (fst (upsert_loop L ctx (m(''USD'' \<mapsto> 1)) SupportedCurrencies q 0)),
               snd (upsert_loop L ctx (m(''USD'' \<mapsto> 1)) SupportedCurrencies q 0))"
  by (simp add: UpdateAllRates_def split: prod.splits)

lemma distinct_SupportedCurrencies: "distinct SupportedCurrencies"
  by (simp add: SupportedCurrencies_def)

lemmas demo_refresh_defs =
  UpdateAllRates_def demo_L_def demo_Decode_def demo_body_def SupportedCurrencies_def
  q_UpsertExchangeRate_def stmt_error_def sql_UpsertExchangeRate_def same_pair_def
  demo_Sprintf_10f_def Let_def one_Fin

lemma demo_body_decoded:
  "Decode demo_L demo_body =
     Inr \<lparr>Base = ''USD'', Date = ''2025-10-27'', Rates = Some [''EUR'' \<mapsto> 92 / 100, ''GBP'' \<mapsto> 79 / 100]\<rparr>"
  by (simp add: demo_L_def demo_Decode_def demo_body_def)

lemma demo_refresh:
  "UpdateAllRates demo_L (Response 200 demo_body) demo_rates live =
     Returned (None,
       \<lparr>exchange_rates =
          [\<lparr>ID = 1, BaseCurrency = ''USD'', TargetCurrency = ''USD'', Rate = ''1.0000000000'', UpdatedAt = 7\<rparr>,
           \<lparr>ID = 2, BaseCurrency = ''USD'', TargetCurrency = ''EUR'', Rate = ''0.9200000000'', UpdatedAt = 7\<rparr>,
           \<lparr>ID = 3, BaseCurrency = ''USD'', TargetCurrency = ''GBP'', Rate = ''0.7900000000'', UpdatedAt = 7\<rparr>,
           \<lparr>ID = 4, BaseCurrency = ''USD'', TargetCurrency = ''INR'', Rate = ''83.0000000000'', UpdatedAt = 5\<rparr>],
        exchange_rates_id_seq = 8, failing = (\<lambda>s. None), NOW = (\<lambda>s. 7)\<rparr>)"
  by (simp add: demo_refresh_defs live_def demo_rates_def)

text \<open>
  Claim C6, as stated, fails when an upsert fails: with a response that decodes, holding EUR
  and GBP, and a database that refuses the upsert of EUR, the cycle writes USD, returns the
  error of EUR and never upserts GBP, whose row keeps its old rate and timestamp.
\<close>

theorem refresh_stops_at_failed_upsert:
  "UpdateAllRates demo_L (Response 200 demo_body) refused live =
     Returned (Some (ErrUpdateRate ''EUR'' (ErrDriver ''connection refused'')),
       \<lparr>exchange_rates =
          [\<lparr>ID = 1, BaseCurrency = ''USD'', TargetCurrency = ''USD'', Rate = ''1.0000000000'', UpdatedAt = 7\<rparr>,
           \<lparr>ID = 2, BaseCurrency = ''USD'', TargetCurrency = ''EUR'', Rate = ''0.9200000000'', UpdatedAt = 5\<rparr>,
           \<lparr>ID = 3, BaseCurrency = ''USD'', TargetCurrency = ''GBP'', Rate = ''0.8000000000'', UpdatedAt = 5\<rparr>,
           \<lparr>ID = 4, BaseCurrency = ''USD'', TargetCurrency = ''INR'', Rate = ''83.0000000000'', UpdatedAt = 5\<rparr>],
        exchange_rates_id_seq = 6, failing = refusing_EUR, NOW = (\<lambda>s. 7)\<rparr>)"
  by (simp add: demo_refresh_defs live_def demo_rates_def refused_def refusing_EUR_def)

text \<open>
  Claim C6, amended. For every refresh cycle whose response decodes to a rates mapping, the
  rate 1.0 is set for USD in the mapping and the supported currencies are taken in their
  order. A currency the mapping lacks, or one outside the supported list, keeps the rows it
  had, whatever else happens. When no upsert fails, the cycle returns no error and every
  supported currency in the mapping has a row with its rate, formatted to ten decimals, and
  the time of its upsert. When the upsert of a currency fails, the cycle returns that
  currency's error, and the currencies after it keep the rows they had.
\<close>

theorem UpdateAllRates_skips_absent:
  assumes "Decode L body = Inr resp" and "Rates resp = Some m"
  shows "\<exists>err q'.
     UpdateAllRates L (Response 200 body) q ctx = Returned (err, q') \<and>
     (\<forall>c. c \<notin> set SupportedCurrencies \<or> (m(''USD'' \<mapsto> 1)) c = None \<longrightarrow>
        rows_of (exchange_rates q') ''USD'' c = rows_of (exchange_rates q) ''USD'' c) \<and>
     ((\<forall>c \<in> set SupportedCurrencies. upsert_ok L q ctx (m(''USD'' \<mapsto> 1)) c) \<longrightarrow>
        err = None \<and>
        (\<forall>c \<in> set SupportedCurrencies. \<forall>r. (m(''USD'' \<mapsto> 1)) c = Some r \<longrightarrow>
           rows_of (exchange_rates q') ''USD'' c \<noteq> [] \<and>
           (\<forall>x \<in> set (rows_of (exchange_rates q') ''USD'' c).
              Rate x = Sprintf_10f L r \<and>
              UpdatedAt x = NOW q (UpsertExchangeRateStmt ''USD'' c (Sprintf_10f L r))))) \<and>
     (\<forall>pre c post r e.
        SupportedCurrencies = pre @ c # post \<and>
        (\<forall>x \<in> set pre. upsert_ok L q ctx (m(''USD'' \<mapsto> 1)) x) \<and>
        (m(''USD'' \<mapsto> 1)) c = Some r \<and>
        stmt_error q ctx (UpsertExchangeRateStmt ''USD'' c (Sprintf_10f L r)) = Some e \<longrightarrow>
        err = Some (ErrUpdateRate c (ErrDriver e)) \<and>
        (\<forall>c' \<in> set post. rows_of (exchange_rates q') ''USD'' c' = rows_of (exchange_rates q) ''USD'' c'))"
proof -
  let ?rates = "m(''USD'' \<mapsto> 1)"
  let ?run = "upsert_loop L ctx ?rates SupportedCurrencies q 0"
  have ret: "UpdateAllRates L (Response 200 body) q ctx = Returned (fst (fst ?run), snd ?run)"
    using assms by (rule UpdateAllRates_decoded)
  have absent: "rows_of (exchange_rates (snd ?run)) ''USD'' c = rows_of (exchange_rates q) ''USD'' c"
    if "c \<notin> set SupportedCurrencies \<or> ?rates c = None" for c
    using that by (intro upsert_loop_untouched) blast
  have good: "fst (fst ?run) = None \<and>
        (\<forall>c \<in> set SupportedCurrencies. \<forall>r. ?rates c = Some r \<longrightarrow>
           rows_of (exchange_rates (snd ?run)) ''USD'' c \<noteq> [] \<and>
           (\<forall>x \<in> set (rows_of (exchange_rates (snd ?run)) ''USD'' c).
              Rate x = Sprintf_10f L r \<and>
              UpdatedAt x = NOW q (UpsertExchangeRateStmt ''USD'' c (Sprintf_10f L r))))"
    if ok: "\<forall>c \<in> set SupportedCurrencies. upsert_ok L q ctx ?rates c"
  proof (intro conjI ballI allI impI)
    show "fst (fst ?run) = None"
      using ok by (rule upsert_loop_all_ok)
  next
    fix c r
    assume c: "c \<in> set SupportedCurrencies" and r: "?rates c = Some r"
    note w = upsert_loop_written [OF distinct_SupportedCurrencies ok c r, of 0]
    show "rows_of (exchange_rates (snd ?run)) ''USD'' c \<noteq> []"
      using w by blast
    fix x
    assume "x \<in> set (rows_of (exchange_rates (snd ?run)) ''USD'' c)"
    with w show "Rate x = Sprintf_10f L r" by blast
  next
    fix c r x
    assume c: "c \<in> set SupportedCurrencies" and r: "?rates c = Some r"
      and x: "x \<in> set (rows_of (exchange_rates (snd ?run)) ''USD'' c)"
    note w = upsert_loop_written [OF distinct_SupportedCurrencies ok c r, of 0]
    with x show "UpdatedAt x = NOW q (UpsertExchangeRateStmt ''USD'' c (Sprintf_10f L r))" by blast
  qed
  have cut: "fst (fst ?run) = Some (ErrUpdateRate c (ErrDriver e)) \<and>
        (\<forall>c' \<in> set post. rows_of (exchange_rates (snd ?run)) ''USD'' c' = rows_of (exchange_rates q) ''USD'' c')"
    if split: "SupportedCurrencies = pre @ c # post"
      and ok: "\<forall>x \<in> set pre. upsert_ok L q ctx ?rates x"
      and r: "?rates c = Some r"
      and e: "stmt_error q ctx (UpsertExchangeRateStmt ''USD'' c (Sprintf_10f L r)) = Some e"
    for pre c post r e
  proof -
    note s = upsert_loop_stops [OF ok r e, of post 0, folded split]
    from s have err: "fst (fst ?run) = Some (ErrUpdateRate c (ErrDriver e))"
      by (rule conjunct1)
    from s have stop: "snd ?run = snd (upsert_loop L ctx ?rates pre q 0)"
      by (rule conjunct2)
    have d: "distinct (pre @ c # post)"
      using distinct_SupportedCurrencies split by simp
    have "rows_of (exchange_rates (snd ?run)) ''USD'' c' = rows_of (exchange_rates q) ''USD'' c'"
      if "c' \<in> set post" for c'
    proof -
      from that d have "c' \<notin> set pre" by auto
      then show ?thesis
        unfolding stop by (intro upsert_loop_untouched) blast
    qed
    with err show ?thesis by blast
  qed
  show ?thesis
    using ret absent good cut by blast
qed

theorem UpdateAllRates_skips_absent_witness:
  "Decode demo_L demo_body =
     Inr \<lparr>Base = ''USD'', Date = ''2025-10-27'', Rates = Some [''EUR'' \<mapsto> 92 / 100, ''GBP'' \<mapsto> 79 / 100]\<rparr> \<and>
   (\<exists>q'. UpdateAllRates demo_L (Response 200 demo_body) demo_rates live = Returned (None, q') \<and>
         rows_of (exchange_rates q') ''USD'' ''INR'' = rows_of (exchange_rates demo_rates) ''USD'' ''INR'' \<and>
         rows_of (exchange_rates q') ''USD'' ''EUR'' \<noteq> [])"
proof -
  let ?m = "[''EUR'' \<mapsto> 92 / 100, ''GBP'' \<mapsto> 79 / 100] :: string \<rightharpoonup> float64"
  let ?rates = "?m(''USD'' \<mapsto> 1)"
  have "Rates \<lparr>Base = ''USD'', Date = ''2025-10-27'', Rates = Some ?m\<rparr> = Some ?m"
    by simp
  from UpdateAllRates_skips_absent [OF demo_body_decoded this, of demo_rates live]
  obtain err q' where ret: "UpdateAllRates demo_L (Response 200 demo_body) demo_rates live = Returned (err, q')"
    and absent: "\<forall>c. c \<notin> set SupportedCurrencies \<or> ?rates c = None \<longrightarrow>
        rows_of (exchange_rates q') ''USD'' c = rows_of (exchange_rates demo_rates) ''USD'' c"
    and good: "(\<forall>c \<in> set SupportedCurrencies. upsert_ok demo_L demo_rates live ?rates c) \<longrightarrow>
        err = None \<and>
        (\<forall>c \<in> set SupportedCurrencies. \<forall>r. ?rates c = Some r \<longrightarrow>
           rows_of (exchange_rates q') ''USD'' c \<noteq> [] \<and>
           (\<forall>x \<in> set (rows_of (exchange_rates q') ''USD'' c).
              Rate x = Sprintf_10f demo_L r \<and>
              UpdatedAt x = NOW demo_rates (UpsertExchangeRateStmt ''USD'' c (Sprintf_10f demo_L r))))"
    by (elim exE conjE)
  have ok: "\<forall>c \<in> set SupportedCurrencies. upsert_ok demo_L demo_rates live ?rates c"
    by (simp add: upsert_ok_def stmt_error_def live_def demo_rates_def split: option.splits)
  have inr: "?rates ''INR'' = None"
    by simp
  have eur: "''EUR'' \<in> set SupportedCurrencies" "?rates ''EUR'' = Some (92 / 100)"
    by (simp_all add: SupportedCurrencies_def)
  from good ok have "err = None" by blast
  moreover from absent inr
  have "rows_of (exchange_rates q') ''USD'' ''INR'' = rows_of (exchange_rates demo_rates) ''USD'' ''INR''"
    by blast
  moreover from good ok eur have "rows_of (exchange_rates q') ''USD'' ''EUR'' \<noteq> []"
    by blast
  ultimately show ?thesis
    using ret demo_body_decoded by blast
qed

text \<open>
  Claim C7, as stated, fails for the timeout: a context whose deadline passes after the
  upsert of USD makes the upsert of EUR fail, the cycle returns that error, and the row of
  USD it wrote stays in a table that was empty before.
\<close>

theorem refresh_cut_by_deadline:
  "UpdateAllRates demo_L (Response 200 demo_body) no_rows expiring =
     Returned (Some (ErrUpdateRate ''EUR'' (ErrDriver ''context deadline exceeded'')),
       \<lparr>exchange_rates =
          [\<lparr>ID = 1, BaseCurrency = ''USD'', TargetCurrency = ''USD'', Rate = ''1.0000000000'', UpdatedAt = 7\<rparr>],
        exchange_rates_id_seq = 2, failing = (\<lambda>s. None), NOW = (\<lambda>s. 7)\<rparr>) \<and>
   exchange_rates no_rows = []"
  by (simp add: demo_refresh_defs expiring_def no_rows_def)

text \<open>
  Claim C7, amended. A cycle whose request fails, whose response has a status other than
  200, or whose body does not decode returns the error and leaves the database as it was.
  The context does not reach the request; a deadline that has passed when the first upsert,
  that of USD, is issued ends the cycle with an error and the database as it was, and one
  that passes later ends it at the upsert it meets, with the database as the upserts before
  it left it.
\<close>

theorem UpdateAllRates_aborted:
  "UpdateAllRates L (GetFailed e) q ctx = Returned (Some (ErrFetch e), q) \<and>
   (status \<noteq> 200 \<longrightarrow>
      UpdateAllRates L (Response status body) q ctx = Returned (Some (ErrStatus status), q)) \<and>
   (Decode L body = Inl e \<longrightarrow>
      UpdateAllRates L (Response 200 body) q ctx = Returned (Some (ErrDecode e), q)) \<and>
   (Decode L body = Inr resp \<and> Rates resp = Some m \<and>
    ctx (UpsertExchangeRateStmt ''USD'' ''USD'' (Sprintf_10f L 1)) = Some e \<longrightarrow>
      UpdateAllRates L (Response 200 body) q ctx =
        Returned (Some (ErrUpdateRate ''USD'' (ErrDriver e)), q)) \<and>
   (Decode L body = Inr resp \<and> Rates resp = Some m \<and>
    SupportedCurrencies = pre @ c # post \<and>
    (\<forall>x \<in> set pre. upsert_ok L q ctx (m(''USD'' \<mapsto> 1)) x) \<and>
    (m(''USD'' \<mapsto> 1)) c = Some r \<and>
    ctx (UpsertExchangeRateStmt ''USD'' c (Sprintf_10f L r)) = Some e \<longrightarrow>
      UpdateAllRates L (Response 200 body) q ctx =
        Returned (Some (ErrUpdateRate c (ErrDriver e)),
                  snd (upsert_loop L ctx (m(''USD'' \<mapsto> 1)) pre q 0)))"
proof (intro conjI impI)
  show "UpdateAllRates L (GetFailed e) q ctx = Returned (Some (ErrFetch e), q)"
    by (simp add: UpdateAllRates_def)
next
  assume "status \<noteq> 200"
  then show "UpdateAllRates L (Response status body) q ctx = Returned (Some (ErrStatus status), q)"
    by (simp add: UpdateAllRates_def)
next
  assume "Decode L body = Inl e"
  then show "UpdateAllRates L (Response 200 body) q ctx = Returned (Some (ErrDecode e), q)"
    by (simp add: UpdateAllRates_def)
next
  assume a: "Decode L body = Inr resp \<and> Rates resp = Some m \<and>
    ctx (UpsertExchangeRateStmt ''USD'' ''USD'' (Sprintf_10f L 1)) = Some e"
  then have "q_UpsertExchangeRate q ctx ''USD'' ''USD'' (Sprintf_10f L 1) = Inl (ErrDriver e)"
    by (simp add: q_Upsert_Inl stmt_error_def)
  then have "upsert_loop L ctx (m(''USD'' \<mapsto> 1)) SupportedCurrencies q 0
               = ((Some (ErrUpdateRate ''USD'' (ErrDriver e)), 0), q)"
    by (simp add: SupportedCurrencies_def)
  with a show "UpdateAllRates L (Response 200 body) q ctx =
        Returned (Some (ErrUpdateRate ''USD'' (ErrDriver e)), q)"
    by (simp add: UpdateAllRates_decoded)
next
  assume a: "Decode L body = Inr resp \<and> Rates resp = Some m \<and>
    SupportedCurrencies = pre @ c # post \<and>
    (\<forall>x \<in> set pre. upsert_ok L q ctx (m(''USD'' \<mapsto> 1)) x) \<and>
    (m(''USD'' \<mapsto> 1)) c = Some r \<and>
    ctx (UpsertExchangeRateStmt ''USD'' c (Sprintf_10f L r)) = Some e"
  then have ok: "\<forall>x \<in> set pre. upsert_ok L q ctx (m(''USD'' \<mapsto> 1)) x"
    and r: "(m(''USD'' \<mapsto> 1)) c = Some r"
    and split: "SupportedCurrencies = pre @ c # post"
    by blast+
  from a have e: "stmt_error q ctx (UpsertExchangeRateStmt ''USD'' c (Sprintf_10f L r)) = Some e"
    by (simp add: stmt_error_def)
  note s = upsert_loop_stops [OF ok r e, of post 0, folded split]
  from a have "UpdateAllRates L (Response 200 body) q ctx =
     Returned (fst (fst (upsert_loop L ctx (m(''USD'' \<mapsto> 1)) SupportedCurrencies q 0)),
               snd (upsert_loop L ctx (m(''USD'' \<mapsto> 1)) SupportedCurrencies q 0))"
    by (intro UpdateAllRates_decoded) blast+
  also have "\<dots> = Returned (Some (ErrUpdateRate c (ErrDriver e)),
                  snd (upsert_loop L ctx (m(''USD'' \<mapsto> 1)) pre q 0))"
    using s by (simp only:)
  finally show "UpdateAllRates L (Response 200 body) q ctx =
        Returned (Some (ErrUpdateRate c (ErrDriver e)),
                  snd (upsert_loop L ctx (m(''USD'' \<mapsto> 1)) pre q 0))" .
qed

theorem UpdateAllRates_aborted_witness:
  "UpdateAllRates demo_L (GetFailed ''no such host'') demo_rates live
     = Returned (Some (ErrFetch ''no such host''), demo_rates) \<and>
   UpdateAllRates demo_L (Response 503 demo_body) demo_rates live
     = Returned (Some (ErrStatus 503), demo_rates) \<and>
   Decode demo_L ''<html>'' = Inl ''invalid character'' \<and>
   UpdateAllRates demo_L (Response 200 ''<html>'') demo_rates live
     = Returned (Some (ErrDecode ''invalid character''), demo_rates) \<and>
   UpdateAllRates demo_L (Response 200 demo_body) demo_rates dead
     = Returned (Some (ErrUpdateRate ''USD'' (ErrDriver ''context deadline exceeded'')), demo_rates)"
proof -
  let ?m = "[''EUR'' \<mapsto> 92 / 100, ''GBP'' \<mapsto> 79 / 100] :: string \<rightharpoonup> float64"
  have bad: "Decode demo_L ''<html>'' = Inl ''invalid character''"
    by (simp add: demo_L_def demo_Decode_def)
  have gone: "dead (UpsertExchangeRateStmt ''USD'' ''USD'' (Sprintf_10f demo_L 1)) = Some ''context deadline exceeded''"
    by (simp add: dead_def)
  have rates: "Rates \<lparr>Base = ''USD'', Date = ''2025-10-27'', Rates = Some ?m\<rparr> = Some ?m"
    by simp
  note net = UpdateAllRates_aborted
    [where L = demo_L and e = "''no such host''" and q = demo_rates and ctx = live and status = 503
       and body = demo_body]
  note html = UpdateAllRates_aborted
    [where L = demo_L and e = "''invalid character''" and q = demo_rates and ctx = live and body = "''<html>''"]
  note late = UpdateAllRates_aborted
    [where L = demo_L and e = "''context deadline exceeded''" and q = demo_rates and ctx = dead
       and body = demo_body and m = ?m
       and resp = "\<lparr>Base = ''USD'', Date = ''2025-10-27'', Rates = Some ?m\<rparr>"]
  have "UpdateAllRates demo_L (GetFailed ''no such host'') demo_rates live
     = Returned (Some (ErrFetch ''no such host''), demo_rates)"
    using net by blast
  moreover have "UpdateAllRates demo_L (Response 503 demo_body) demo_rates live
     = Returned (Some (ErrStatus 503), demo_rates)"
    using net by simp
  moreover have "UpdateAllRates demo_L (Response 200 ''<html>'') demo_rates live
     = Returned (Some (ErrDecode ''invalid character''), demo_rates)"
    using html bad by blast
  moreover have "UpdateAllRates demo_L (Response 200 demo_body) demo_rates dead
     = Returned (Some (ErrUpdateRate ''USD'' (ErrDriver ''context deadline exceeded'')), demo_rates)"
    using late demo_body_decoded gone rates by blast
  ultimately show ?thesis
    using bad by blast
qed

section \<open>The aggregation passes\<close>


lemma currenciesNeeded_set:
  "set (currenciesNeeded clients R) = {c \<in> client_Currency ` set clients. c \<noteq> R}"
  by (auto simp: currenciesNeeded_def)

lemma fetch_step:
  "foldl (\<lambda>conversionRates currency.
            case fst (ConvertAmount L ex ctx 1 currency R) of
              (convertedAmount, Some err) \<Rightarrow> conversionRates(currency \<mapsto> 1)
            | (convertedAmount, None) \<Rightarrow> conversionRates(currency \<mapsto> convertedAmount)) m cs c
   = (if c \<in> set cs then Some (multiplier L ex ctx R c) else m c)"
proof (induction cs arbitrary: m)
  case Nil
  then show ?case by simp
next
  case (Cons d cs)
  show ?case
    by (cases "fst (ConvertAmount L ex ctx 1 d R)")
       (auto simp: Cons multiplier_def convert_def split: option.splits)
qed

lemma fetch_conversionRates_eq:
  "fetch_conversionRates L ex ctx cs R c = (if c \<in> set cs then Some (multiplier L ex ctx R c) else None)"
  by (simp add: fetch_conversionRates_def fetch_step)





lemma dashboard_entry_step_eq:
  "dashboard_entry_step L f t cm cr R (h, r) e =
     (if in_range f t (entry_Date e)
      then (h + fst (ParseFloat L (entry_Hours e)), r + entry_revenue L cm cr R e)
      else (h, r))"
  by (simp add: dashboard_entry_step_def in_range_def entry_revenue_def convertedAmount_of_def Let_def
      split: option.splits)

lemma dashboard_fold:
  "foldl (dashboard_entry_step L f t cm cr R) (h, r) es =
     (h + sum_list (map (\<lambda>e. fst (ParseFloat L (entry_Hours e))) (filter (\<lambda>e. in_range f t (entry_Date e)) es)),
      r + sum_list (map (entry_revenue L cm cr R) (filter (\<lambda>e. in_range f t (entry_Date e)) es)))"
  by (induction es arbitrary: h r) (simp_all add: dashboard_entry_step_eq add.assoc)

lemma dashboard_entries_eq:
  "dashboard_entries L f t cm cr R es =
     (sum_list (map (\<lambda>e. fst (ParseFloat L (entry_Hours e))) (filter (\<lambda>e. in_range f t (entry_Date e)) es)),
      sum_list (map (entry_revenue L cm cr R) (filter (\<lambda>e. in_range f t (entry_Date e)) es)))"
  by (simp add: dashboard_entries_def dashboard_fold)


lemma GetDashboardStats_ok:
  assumes "dashboard_reads L h userID fromStr toStr user fromDate toDate timeEntries clients invoices"
  shows "GetDashboardStats L h ctx userID fromStr toStr =
     (let R = userCurrency_of user;
          cm = build_clientsMap clients;
          cr = fetch_conversionRates L (exchangeService h) ctx (currenciesNeeded clients R) R;
          er = dashboard_entries L fromDate toDate cm cr R timeEntries;
          ir = foldl (dashboard_invoice_step L (queries h) fromDate toDate cm cr R) (0, 0) invoices;
          resp = \<lparr>dashboard_TotalHours = fst er, dashboard_TotalRevenue = snd er,
                  dashboard_UnpaidInvoices = fst ir, dashboard_PaidInvoices = snd ir\<rparr>
      in c_JSON_OK (encodable_DashboardStats resp) resp)"
  using assms
  by (simp add: GetDashboardStats_def dashboard_reads_def Let_def split: prod.splits)

lemma invoice_stats_step_eq:
  "invoice_stats_step L qs sf cm cr R (tot, rs) invoice =
     (invoice_totals_step L qs cm cr R tot invoice,
      rs @ filter (\<lambda>r. sf = ''all'' \<or> ir_Status r = sf) (invoice_responses L qs cm [invoice]))"
  by (cases tot)
     (auto simp: invoice_stats_step_def invoice_totals_step_def invoice_responses_def invoice_response_def
        invoice_currency_def convertedAmount_of_def Let_def
      split: sum.splits option.splits)

lemma invoice_responses_Cons:
  "invoice_responses L qs cm (invoice # invoices)
     = invoice_responses L qs cm [invoice] @ invoice_responses L qs cm invoices"
  by (simp add: invoice_responses_def)

lemma invoice_stats_fold:
  "foldl (invoice_stats_step L qs sf cm cr R) (tot, rs) invoices =
     (foldl (invoice_totals_step L qs cm cr R) tot invoices,
      rs @ filter (\<lambda>r. sf = ''all'' \<or> ir_Status r = sf) (invoice_responses L qs cm invoices))"
proof (induction invoices arbitrary: tot rs)
  case Nil
  then show ?case by (simp add: invoice_responses_def)
next
  case (Cons invoice invoices)
  show ?case
    by (simp add: invoice_stats_step_eq Cons invoice_responses_Cons [of L qs cm invoice invoices])
qed

lemma invoice_items_Cons:
  "invoice_items L qs cm (invoice # invoices) =
     (case GetInvoiceTimeEntries qs (invoice_ID invoice) of
        Inl err \<Rightarrow> []
      | Inr timeEntries \<Rightarrow> [(invoiceTotal_of L timeEntries, invoice_currency cm invoice)])
     @ invoice_items L qs cm invoices"
  by (simp add: invoice_items_def invoice_currency_def split: sum.splits)

lemma invoice_totals_fold_total:
  "fst (foldl (invoice_totals_step L qs cm cr R) (ta, pa, ua) invoices) =
     ta + sum_list (map (\<lambda>(a, c). convertedAmount_of cr R c a) (invoice_items L qs cm invoices))"
proof (induction invoices arbitrary: ta pa ua)
  case Nil
  then show ?case by (simp add: invoice_items_def)
next
  case (Cons invoice invoices)
  obtain ta' pa' ua' where step: "invoice_totals_step L qs cm cr R (ta, pa, ua) invoice = (ta', pa', ua')"
    by (cases "invoice_totals_step L qs cm cr R (ta, pa, ua) invoice") auto
  have ta': "ta' = ta + sum_list (map (\<lambda>(a, c). convertedAmount_of cr R c a)
                 (case GetInvoiceTimeEntries qs (invoice_ID invoice) of
                    Inl err \<Rightarrow> []
                  | Inr timeEntries \<Rightarrow> [(invoiceTotal_of L timeEntries, invoice_currency cm invoice)]))"
    using step by (auto simp: invoice_totals_step_def Let_def split: sum.splits)
  have "fst (foldl (invoice_totals_step L qs cm cr R) (ta, pa, ua) (invoice # invoices))
      = fst (foldl (invoice_totals_step L qs cm cr R) (ta', pa', ua') invoices)"
    by (simp only: foldl_Cons step)
  also have "\<dots> = ta' + sum_list (map (\<lambda>(a, c). convertedAmount_of cr R c a) (invoice_items L qs cm invoices))"
    by (rule Cons)
  finally show ?case
    by (simp add: ta' invoice_items_Cons add.assoc)
qed

lemma GetInvoiceStats_ok:
  assumes "invoice_stats_reads h userID user invoices clients"
  shows "GetInvoiceStats L h ctx userID statusParam =
     (let sf = (if statusParam = [] then ''all'' else statusParam);
          R = userCurrency_of user;
          cm = build_clientsMap clients;
          cr = fetch_conversionRates L (exchangeService h) ctx (currenciesNeeded clients R) R;
          tot = foldl (invoice_totals_step L (queries h) cm cr R) (0, 0, 0) invoices;
          rs = filter (\<lambda>r. sf = ''all'' \<or> ir_Status r = sf) (invoice_responses L (queries h) cm invoices);
          resp = \<lparr>stats_Invoices = rs,
                  stats_TotalInvoices = length rs,
                  stats_TotalAmount = fst tot,
                  stats_PaidAmount = fst (snd tot),
                  stats_UnpaidAmount = snd (snd tot)\<rparr>
      in c_JSON_OK (encodable_InvoiceStats resp) resp)"
  using assms
  by (simp add: GetInvoiceStats_def invoice_stats_reads_def Let_def invoice_stats_fold split: prod.splits)

lemma GetInvoiceStats_error:
  "\<not> (\<exists>user invoices clients. invoice_stats_reads h userID user invoices clients) \<Longrightarrow>
   \<exists>status msg. \<forall>statusParam. GetInvoiceStats L h ctx userID statusParam = ReplyError status msg"
  by (auto simp: GetInvoiceStats_def invoice_stats_reads_def Let_def split: sum.splits)




lemma demo_parse:
  "ParseFloat demo_L ''1.00'' = (1, None)"
  "ParseFloat demo_L ''0.20'' = (2 / 10, None)"
  "ParseFloat demo_L ''2.50'' = (5 / 2, None)"
  "ParseFloat demo_L ''50.00'' = (50, None)"
  "ParseFloat demo_L ''40.00'' = (40, None)"
  "ParseFloat demo_L ''100.00'' = (100, None)"
  by (simp_all add: demo_L_def parse_decimal_def digit_val_def one_Fin)

lemma demo_clientsMap:
  "build_clientsMap demo_clients 1 = Some (demo_clients ! 0)"
  "build_clientsMap demo_clients 2 = Some (demo_clients ! 1)"
  "build_clientsMap demo_clients 99 = None"
  by (simp_all add: build_clientsMap_def demo_clients_def)

lemma demo_multiplier_EUR: "multiplier demo_L demo_rates live ''USD'' ''EUR'' = 1 / (92 / 100) * 1"
  by (simp add: multiplier_def convert_unfold demo_rate_EUR rate_of_USD one_Fin)


text \<open>
  When the total of the invoice statistics is finite, so is every number of the body, under
  every filter: each invoice's amount is a term of the total, and its hours are factors of
  its amount.
\<close>

lemma foldl_plus: "foldl (\<lambda>t e. t + f e) (z :: float64) es = z + sum_list (map f es)"
  by (induction es arbitrary: z) (simp_all add: add.assoc)

lemma invoiceTotal_finite_hours: "finite64 (invoiceTotal_of L es) \<Longrightarrow> finite64 (totalHours_of L es)"
  by (auto simp: invoiceTotal_of_def totalHours_of_def foldl_plus dest: finite64_times)

lemma convertedAmount_finite: "finite64 (convertedAmount_of cr R c a) \<Longrightarrow> finite64 a"
  by (auto simp: convertedAmount_of_def split: if_splits option.splits dest: finite64_times)

lemma invoice_totals_finite_items:
  assumes "finite64 (fst (foldl (invoice_totals_step L qs cm cr R) (ta, pa, ua) invoices))"
  shows "finite64 ta" and "\<forall>(a, c) \<in> set (invoice_items L qs cm invoices). finite64 a"
  using assms by (auto simp: invoice_totals_fold_total dest: convertedAmount_finite)

lemma invoice_responses_finite:
  "\<forall>(a, c) \<in> set (invoice_items L qs cm invoices). finite64 a \<Longrightarrow>
   list_all (\<lambda>r. finite64 (ir_TotalHours r) \<and> finite64 (ir_TotalAmount r)) (invoice_responses L qs cm invoices)"
proof (induction invoices)
  case Nil
  then show ?case by (simp add: invoice_responses_def)
next
  case (Cons invoice invoices)
  from Cons.prems have rest: "\<forall>(a, c) \<in> set (invoice_items L qs cm invoices). finite64 a"
    by (simp add: invoice_items_Cons)
  have first: "list_all (\<lambda>r. finite64 (ir_TotalHours r) \<and> finite64 (ir_TotalAmount r))
                 (invoice_responses L qs cm [invoice])"
    using Cons.prems
    by (auto simp: invoice_items_Cons invoice_responses_def invoice_response_def
        split: sum.splits intro: invoiceTotal_finite_hours)
  show ?case
    using first Cons.IH [OF rest] by (simp add: invoice_responses_Cons [of L qs cm invoice invoices])
qed

lemma invoice_totals_finite:
  "finite64 (fst (foldl (invoice_totals_step L qs cm cr R) (ta, pa, ua) invoices)) \<Longrightarrow>
   finite64 pa \<Longrightarrow> finite64 ua \<Longrightarrow>
   finite64 (fst (snd (foldl (invoice_totals_step L qs cm cr R) (ta, pa, ua) invoices))) \<and>
   finite64 (snd (snd (foldl (invoice_totals_step L qs cm cr R) (ta, pa, ua) invoices)))"
proof (induction invoices arbitrary: ta pa ua)
  case Nil
  then show ?case by simp
next
  case (Cons invoice invoices)
  obtain ta' pa' ua' where step: "invoice_totals_step L qs cm cr R (ta, pa, ua) invoice = (ta', pa', ua')"
    by (cases "invoice_totals_step L qs cm cr R (ta, pa, ua) invoice") auto
  have f: "foldl (invoice_totals_step L qs cm cr R) (ta, pa, ua) (invoice # invoices)
         = foldl (invoice_totals_step L qs cm cr R) (ta', pa', ua') invoices"
    by (simp only: foldl_Cons step)
  from Cons.prems(1) have fin: "finite64 (fst (foldl (invoice_totals_step L qs cm cr R) (ta', pa', ua') invoices))"
    by (simp only: f)
  then have "finite64 ta'"
    by (rule invoice_totals_finite_items)
  with step Cons.prems(2,3) have "finite64 pa'" "finite64 ua'"
    by (auto simp: invoice_totals_step_def Let_def split: sum.splits if_splits)
  from Cons.IH [OF fin this] show ?case
    by (simp only: f)
qed

lemma invoice_stats_encodable:
  "encodable_InvoiceStats
     \<lparr>stats_Invoices = filter P (invoice_responses L qs cm invoices),
      stats_TotalInvoices = n,
      stats_TotalAmount = fst (foldl (invoice_totals_step L qs cm cr R) (0, 0, 0) invoices),
      stats_PaidAmount = fst (snd (foldl (invoice_totals_step L qs cm cr R) (0, 0, 0) invoices)),
      stats_UnpaidAmount = snd (snd (foldl (invoice_totals_step L qs cm cr R) (0, 0, 0) invoices))\<rparr>
   \<longleftrightarrow> finite64 (fst (foldl (invoice_totals_step L qs cm cr R) (0, 0, 0) invoices))"
proof
  assume "finite64 (fst (foldl (invoice_totals_step L qs cm cr R) (0, 0, 0) invoices))"
  then show "encodable_InvoiceStats
     \<lparr>stats_Invoices = filter P (invoice_responses L qs cm invoices),
      stats_TotalInvoices = n,
      stats_TotalAmount = fst (foldl (invoice_totals_step L qs cm cr R) (0, 0, 0) invoices),
      stats_PaidAmount = fst (snd (foldl (invoice_totals_step L qs cm cr R) (0, 0, 0) invoices)),
      stats_UnpaidAmount = snd (snd (foldl (invoice_totals_step L qs cm cr R) (0, 0, 0) invoices))\<rparr>"
    using invoice_totals_finite [of L qs cm cr R 0 0 0 invoices]
      invoice_responses_finite [OF invoice_totals_finite_items(2), of L qs cm cr R 0 0 0 invoices]
    by (simp add: encodable_InvoiceStats_def list_all_iff)
qed (simp add: encodable_InvoiceStats_def)

text \<open>
  Claim C9. In \<open>GetInvoiceStats\<close> the status filter reaches only the invoice list and its
  count: for the same invoices, clients, time entries and stored rates, the reply to any two
  values of the filter is the same error, or carries the same total, paid and unpaid amounts;
  and the list shown under a filter is the list shown under \<open>all\<close> cut down to the invoices
  of that status, counted.
\<close>

theorem GetInvoiceStats_totals_ignore_filter:
  "stats_totals (GetInvoiceStats L h ctx userID statusParam)
     = stats_totals (GetInvoiceStats L h ctx userID statusParam') \<and>
   stats_listed (GetInvoiceStats L h ctx userID statusParam)
     = map_option (\<lambda>(invoices, n). (filter (shown statusParam) invoices,
                                       length (filter (shown statusParam) invoices)))
         (stats_listed (GetInvoiceStats L h ctx userID ''all''))"
proof (cases "\<exists>user invoices clients. invoice_stats_reads h userID user invoices clients")
  case True
  then obtain user invoices clients where r: "invoice_stats_reads h userID user invoices clients"
    by blast
  have f: "filter (shown statusParam) rs
         = filter (\<lambda>r. (if statusParam = [] then ''all'' else statusParam) = ''all''
                       \<or> ir_Status r = (if statusParam = [] then ''all'' else statusParam)) rs" for rs
    by (rule filter_cong) (auto simp: shown_def)
  show ?thesis
    by (simp add: GetInvoiceStats_ok [OF r] stats_totals_def stats_listed_def Let_def f
        c_JSON_OK_def invoice_stats_encodable)
next
  case False
  then obtain status msg where "\<forall>p. GetInvoiceStats L h ctx userID p = ReplyError status msg"
    using GetInvoiceStats_error by blast
  then show ?thesis
    by (simp add: stats_totals_def stats_listed_def)
qed

lemma demo_dashboard:
  "GetDashboardStats demo_L demo_handler live 1 [] [] =
     ReplyOK \<lparr>dashboard_TotalHours = Fin (11 / 5),
              dashboard_TotalRevenue = Fin (50 + 40 / (92 / 100) + 10),
              dashboard_UnpaidInvoices = Fin (40 / (92 / 100)),
              dashboard_PaidInvoices = Fin 60\<rparr>"
proof -
  have reads: "dashboard_reads demo_L demo_handler 1 [] [] \<lparr>user_Currency = Some ''USD''\<rparr> None None
      demo_entries demo_clients demo_invoices"
    by (simp add: dashboard_reads_def demo_handler_def demo_queries_def parse_from_def parse_to_def)
  have cr: "fetch_conversionRates demo_L demo_rates live (currenciesNeeded demo_clients ''USD'') ''USD''
          = [''EUR'' \<mapsto> Fin (1 / (92 / 100))]"
    by (rule ext) (auto simp: fetch_conversionRates_eq currenciesNeeded_set demo_multiplier_EUR one_Fin
        demo_clients_def)
  have entries: "dashboard_entries demo_L None None (build_clientsMap demo_clients)
        [''EUR'' \<mapsto> Fin (1 / (92 / 100))] ''USD'' demo_entries
      = (Fin (11 / 5), Fin (50 + 40 / (92 / 100) + 10))"
    by (simp add: dashboard_entries_def dashboard_entry_step_def before_from_def after_to_def
        demo_entries_def demo_clientsMap demo_parse Let_def)
       (simp add: demo_clients_def demo_parse one_Fin zero_Fin)
  have invoices: "foldl (dashboard_invoice_step demo_L demo_queries None None (build_clientsMap demo_clients)
        [''EUR'' \<mapsto> Fin (1 / (92 / 100))] ''USD'') (0, 0) demo_invoices
      = (Fin (40 / (92 / 100)), Fin 60)"
    by (simp add: dashboard_invoice_step_def before_from_def after_to_def demo_invoices_def demo_queries_def
        demo_entries_def invoiceTotal_of_def demo_clientsMap demo_parse Let_def)
       (simp add: demo_clients_def demo_parse one_Fin zero_Fin)
  show ?thesis
    unfolding GetDashboardStats_ok [OF reads]
    using entries invoices
    by (simp add: Let_def userCurrency_of_def demo_handler_def cr c_JSON_OK_def
        encodable_DashboardStats_def)
qed

text \<open>
  Claim C10. In \<open>GetDashboardStats\<close> the total of hours is the sum of the parsed hours of
  every time entry that passes the date filter, whoever its client is. An entry that passes
  the filter and whose client is none of the user's adds its parsed hours to the total of
  hours and leaves the total revenue as it is. These two totals are the ones of the body
  that the handler gives to \<open>c.JSON\<close>.
\<close>

theorem dashboard_orphan_entry_hours:
  "fst (dashboard_entries L fromDate toDate cm cr R timeEntries)
     = sum_list (map (\<lambda>e. fst (ParseFloat L (entry_Hours e)))
                  (filter (\<lambda>e. in_range fromDate toDate (entry_Date e)) timeEntries)) \<and>
   (in_range fromDate toDate (entry_Date entry) \<and> cm (entry_ClientID entry) = None \<longrightarrow>
      dashboard_entries L fromDate toDate cm cr R (earlier @ entry # later) =
        (fst (dashboard_entries L fromDate toDate cm cr R (earlier @ later)) + fst (ParseFloat L (entry_Hours entry)),
         snd (dashboard_entries L fromDate toDate cm cr R (earlier @ later)))) \<and>
   (dashboard_reads L h userID fromStr toStr user fromDate toDate timeEntries clients invoices \<longrightarrow>
      (\<exists>resp. GetDashboardStats L h ctx userID fromStr toStr
                 = c_JSON_OK (encodable_DashboardStats resp) resp \<and>
         (dashboard_TotalHours resp, dashboard_TotalRevenue resp) =
           dashboard_entries L fromDate toDate (build_clientsMap clients)
             (fetch_conversionRates L (exchangeService h) ctx
                (currenciesNeeded clients (userCurrency_of user)) (userCurrency_of user))
             (userCurrency_of user) timeEntries))"
proof (intro conjI impI)
  show "fst (dashboard_entries L fromDate toDate cm cr R timeEntries)
     = sum_list (map (\<lambda>e. fst (ParseFloat L (entry_Hours e)))
                  (filter (\<lambda>e. in_range fromDate toDate (entry_Date e)) timeEntries))"
    by (simp add: dashboard_entries_eq)
next
  assume "in_range fromDate toDate (entry_Date entry) \<and> cm (entry_ClientID entry) = None"
  then show "dashboard_entries L fromDate toDate cm cr R (earlier @ entry # later) =
        (fst (dashboard_entries L fromDate toDate cm cr R (earlier @ later)) + fst (ParseFloat L (entry_Hours entry)),
         snd (dashboard_entries L fromDate toDate cm cr R (earlier @ later)))"
    by (simp add: dashboard_entries_eq entry_revenue_def ac_simps)
next
  assume "dashboard_reads L h userID fromStr toStr user fromDate toDate timeEntries clients invoices"
  then show "\<exists>resp. GetDashboardStats L h ctx userID fromStr toStr
                 = c_JSON_OK (encodable_DashboardStats resp) resp \<and>
         (dashboard_TotalHours resp, dashboard_TotalRevenue resp) =
           dashboard_entries L fromDate toDate (build_clientsMap clients)
             (fetch_conversionRates L (exchangeService h) ctx
                (currenciesNeeded clients (userCurrency_of user)) (userCurrency_of user))
             (userCurrency_of user) timeEntries"
    by (auto simp: GetDashboardStats_ok Let_def)
qed

theorem dashboard_orphan_entry_hours_witness:
  "in_range None None (entry_Date orphan_entry) \<and>
   build_clientsMap demo_clients (entry_ClientID orphan_entry) = None \<and>
   fst (ParseFloat demo_L (entry_Hours orphan_entry)) = 5 / 2 \<and>
   dashboard_entries demo_L None None (build_clientsMap demo_clients)
       (fetch_conversionRates demo_L demo_rates live (currenciesNeeded demo_clients ''USD'') ''USD'')
       ''USD'' (demo_entries @ [orphan_entry])
     = (fst (dashboard_entries demo_L None None (build_clientsMap demo_clients)
               (fetch_conversionRates demo_L demo_rates live (currenciesNeeded demo_clients ''USD'') ''USD'')
               ''USD'' demo_entries) + 5 / 2,
        snd (dashboard_entries demo_L None None (build_clientsMap demo_clients)
               (fetch_conversionRates demo_L demo_rates live (currenciesNeeded demo_clients ''USD'') ''USD'')
               ''USD'' demo_entries)) \<and>
   dashboard_reads demo_L demo_handler 1 [] [] \<lparr>user_Currency = Some ''USD''\<rparr> None None
     demo_entries demo_clients demo_invoices \<and>
   (\<exists>resp. GetDashboardStats demo_L demo_handler live 1 [] [] = ReplyOK resp \<and>
      (dashboard_TotalHours resp, dashboard_TotalRevenue resp) =
        dashboard_entries demo_L None None (build_clientsMap demo_clients)
          (fetch_conversionRates demo_L demo_rates live (currenciesNeeded demo_clients ''USD'') ''USD'')
          ''USD'' demo_entries \<and>
      dashboard_TotalHours resp = Fin (11 / 5))"
proof -
  let ?user = "\<lparr>user_Currency = Some ''USD''\<rparr>"
  have r: "in_range None None (entry_Date orphan_entry)"
    by (simp add: in_range_def before_from_def after_to_def)
  have c: "build_clientsMap demo_clients (entry_ClientID orphan_entry) = None"
    by (simp add: orphan_entry_def demo_clientsMap)
  have p: "fst (ParseFloat demo_L (entry_Hours orphan_entry)) = 5 / 2"
    by (simp add: orphan_entry_def demo_parse)
  have reads: "dashboard_reads demo_L demo_handler 1 [] [] ?user None None demo_entries demo_clients demo_invoices"
    by (simp add: dashboard_reads_def demo_handler_def demo_queries_def parse_from_def parse_to_def)
  have R: "userCurrency_of ?user = ''USD''"
    by (simp add: userCurrency_of_def)
  have ex: "exchangeService demo_handler = demo_rates"
    by (simp add: demo_handler_def)
  note t = dashboard_orphan_entry_hours
    [where L = demo_L and fromDate = None and toDate = None and cm = "build_clientsMap demo_clients"
       and entry = orphan_entry and earlier = demo_entries and later = "[]" and R = "''USD''"
       and cr = "fetch_conversionRates demo_L demo_rates live (currenciesNeeded demo_clients ''USD'') ''USD''"
       and h = demo_handler and userID = 1 and fromStr = "[]" and toStr = "[]" and user = ?user
       and timeEntries = demo_entries and clients = demo_clients and invoices = demo_invoices
       and ctx = live]
  from t r c p have grow: "dashboard_entries demo_L None None (build_clientsMap demo_clients)
       (fetch_conversionRates demo_L demo_rates live (currenciesNeeded demo_clients ''USD'') ''USD'')
       ''USD'' (demo_entries @ [orphan_entry])
     = (fst (dashboard_entries demo_L None None (build_clientsMap demo_clients)
               (fetch_conversionRates demo_L demo_rates live (currenciesNeeded demo_clients ''USD'') ''USD'')
               ''USD'' demo_entries) + 5 / 2,
        snd (dashboard_entries demo_L None None (build_clientsMap demo_clients)
               (fetch_conversionRates demo_L demo_rates live (currenciesNeeded demo_clients ''USD'') ''USD'')
               ''USD'' demo_entries))"
    by simp
  from t reads obtain resp where
    ok: "GetDashboardStats demo_L demo_handler live 1 [] [] = c_JSON_OK (encodable_DashboardStats resp) resp"
    and totals: "(dashboard_TotalHours resp, dashboard_TotalRevenue resp) =
        dashboard_entries demo_L None None (build_clientsMap demo_clients)
          (fetch_conversionRates demo_L demo_rates live (currenciesNeeded demo_clients ''USD'') ''USD'')
          ''USD'' demo_entries"
    unfolding R ex by blast
  from ok have sent: "GetDashboardStats demo_L demo_handler live 1 [] [] = ReplyOK resp"
    unfolding demo_dashboard by (simp add: c_JSON_OK_def split: if_splits)
  then have hours: "dashboard_TotalHours resp = Fin (11 / 5)"
    unfolding demo_dashboard by auto
  show ?thesis
    using r c p grow reads sent totals hours by blast
qed








text \<open>
  With a stored rate of zero for EUR the multiplier of EUR is an infinity, the revenue is
  not finite, and the dashboard answers with status 500.
\<close>

lemma zero_rate_multiplier: "multiplier demo_L zero_rates live ''USD'' ''EUR'' = PInf"
  by (simp add: multiplier_def zero_rate_conversion)

lemma zero_rate_dashboard:
  "GetDashboardStats demo_L zero_handler live 1 [] [] = ReplyError 500 ''Internal Server Error''"
proof -
  have reads: "dashboard_reads demo_L zero_handler 1 [] [] \<lparr>user_Currency = Some ''USD''\<rparr> None None
      demo_entries demo_clients demo_invoices"
    by (simp add: dashboard_reads_def zero_handler_def demo_queries_def parse_from_def parse_to_def)
  have cr: "fetch_conversionRates demo_L zero_rates live (currenciesNeeded demo_clients ''USD'') ''USD''
          = [''EUR'' \<mapsto> PInf]"
    by (rule ext) (auto simp: fetch_conversionRates_eq currenciesNeeded_set zero_rate_multiplier
        demo_clients_def)
  have entries: "snd (dashboard_entries demo_L None None (build_clientsMap demo_clients)
        [''EUR'' \<mapsto> PInf] ''USD'' demo_entries) = PInf"
    by (simp add: dashboard_entries_def dashboard_entry_step_def before_from_def after_to_def
        demo_entries_def demo_clientsMap demo_parse Let_def)
       (simp add: demo_clients_def demo_parse one_Fin zero_Fin times_float64_def plus_float64_def
          fmul_def fadd_def inf_of_def)
  show ?thesis
    unfolding GetDashboardStats_ok [OF reads]
    by (simp add: Let_def userCurrency_of_def zero_handler_def cr entries c_JSON_OK_def
        encodable_DashboardStats_def finite64_def)
qed


end
